theory Spec2Isabelle
  imports Main
begin

section \<open>Authentication layer of the pandemic dashboard API\<close>

text \<open>
  A shallow embedding of \<^verbatim>\<open>shared/docker/api/auth.py\<close> and of the authentication
  endpoints of \<^verbatim>\<open>shared/docker/api/api_pandemies.py\<close>.

  The PostgreSQL store is a value of type \<open>database\<close> that every operation takes and
  returns; the two tables are lists of rows in insertion order, and \<open>fetchone\<close> reads
  the first row of a result. The store is taken to be reachable (the connection made by
  \<^verbatim>\<open>get_db_connection\<close> succeeds), so the status 500 raised there is outside the model.
  Exceptions are values of type \<open>error\<close>. The clock (\<^verbatim>\<open>NOW()\<close>,
  \<^verbatim>\<open>datetime.utcnow()\<close>) is a parameter \<open>now\<close>, in microseconds; the random token of
  \<^verbatim>\<open>secrets.token_urlsafe\<close>, the salt of \<^verbatim>\<open>bcrypt.gensalt\<close> and the bcrypt functions
  are parameters as well; \<^verbatim>\<open>bcrypt.checkpw\<close> may raise instead of answering. Strings are
  byte lists; \<open>lower\<close> is Python's \<^verbatim>\<open>str.lower\<close> on ASCII text.
\<close>

subsection \<open>Python helpers\<close>

type_synonym environ = "string \<rightharpoonup> string"

definition getenv :: "environ \<Rightarrow> string \<Rightarrow> string \<Rightarrow> string" where
  "getenv env key dflt = (case env key of None \<Rightarrow> dflt | Some v \<Rightarrow> v)"

definition startswith :: "string \<Rightarrow> string \<Rightarrow> bool" where
  "startswith s p = (take (length p) s = p)"

definition lower_char :: "char \<Rightarrow> char" where
  "lower_char c =
     (let n = (of_char c :: nat) in if 65 \<le> n \<and> n \<le> 90 then char_of (n + 32) else c)"

definition lower :: "string \<Rightarrow> string" where
  "lower s = map lower_char s"

text \<open>\<^verbatim>\<open>s.split(sep)\<close> for a separator of one character: the result is never empty.\<close>

fun split_on :: "char \<Rightarrow> string \<Rightarrow> string list" where
  "split_on sep [] = [[]]"
| "split_on sep (c # cs) =
     (if c = sep then [] # split_on sep cs
      else (case split_on sep cs of
              [] \<Rightarrow> [[c]]
            | w # ws \<Rightarrow> (c # w) # ws))"

definition fetchone :: "'a list \<Rightarrow> 'a option" where
  "fetchone rows = (case rows of [] \<Rightarrow> None | r # _ \<Rightarrow> Some r)"

text \<open>
  \<^verbatim>\<open>repr\<close> of an ASCII string, as an f-string prints the elements of a list: single
  quotes unless the text has a single quote and no double quote; the quote in use and
  the backslash are escaped, as are newline, carriage return and tab; other control
  characters are printed as \<^verbatim>\<open>\xNN\<close>.
\<close>

definition hex_digit :: "nat \<Rightarrow> char" where
  "hex_digit d = (if d < 10 then char_of (48 + d) else char_of (87 + d))"

definition repr_char :: "char \<Rightarrow> char \<Rightarrow> string" where
  "repr_char q c =
     (let n = (of_char c :: nat) in
      if c = q \<or> c = CHR 0x5C then [CHR 0x5C, c]
      else if c = CHR 0x0A then [CHR 0x5C, CHR ''n'']
      else if c = CHR 0x0D then [CHR 0x5C, CHR ''r'']
      else if c = CHR 0x09 then [CHR 0x5C, CHR ''t'']
      else if n < 32 \<or> n = 127 then [CHR 0x5C, CHR ''x'', hex_digit (n div 16), hex_digit (n mod 16)]
      else [c])"

definition repr_str :: "string \<Rightarrow> string" where
  "repr_str s =
     (let q = (if CHR 0x27 \<in> set s \<and> CHR 0x22 \<notin> set s then CHR 0x22 else CHR 0x27)
      in [q] @ concat (map (repr_char q) s) @ [q])"

fun join :: "string \<Rightarrow> string list \<Rightarrow> string" where
  "join sep [] = []"
| "join sep [x] = x"
| "join sep (x # y # ys) = x @ sep @ join sep (y # ys)"

definition repr_list :: "string list \<Rightarrow> string" where
  "repr_list xs = ''['' @ join '', '' (map repr_str xs) @ '']''"

subsection \<open>Errors\<close>

text \<open>
  \<open>HTTPException status detail headers\<close> is FastAPI's exception. \<open>IntegrityError\<close> is
  the psycopg2 exception of a violated key constraint; no handler of the source catches
  it in \<open>create_session\<close>. \<open>ValueError\<close> is the exception of \<^verbatim>\<open>bcrypt.checkpw\<close>: it is
  raised for a password of more than 72 bytes (bcrypt 5.0.0) and for a stored hash that
  is not a bcrypt hash. No handler of the source catches it either: \<open>authenticate_user\<close>
  has a \<^verbatim>\<open>try ... finally\<close> without \<^verbatim>\<open>except\<close> and \<open>login\<close> has no handler, so the
  two exceptions leave the endpoint as they are and FastAPI answers with status 500.
\<close>

datatype error =
    HTTPException (status_code: nat) (detail: string) (headers: "(string \<times> string) list")
  | IntegrityError
  | ValueError

subsection \<open>The store\<close>

type_synonym timestamp = int

definition JWT_EXPIRE_HOURS :: int where
  "JWT_EXPIRE_HOURS = 24"

definition timedelta_hours :: "int \<Rightarrow> int" where
  "timedelta_hours h = h * 3600 * 1000000"

record user_row =
  id_user :: int
  username :: string
  password_hash :: string
  country :: string
  role :: string
  email :: "string option"
  full_name :: "string option"
  is_active :: bool
  created_at :: timestamp
  last_login :: "timestamp option"

record session_row =
  token :: string
  user_id :: int
  expires_at :: timestamp
  ip_address :: "string option"
  user_agent :: "string option"

record database =
  users :: "user_row list"
  sessions :: "session_row list"
  users_id_seq :: int

text \<open>
  Modelled from the spec: the SQL schema of the tables \<^verbatim>\<open>users\<close> and \<^verbatim>\<open>sessions\<close> is
  not part of the sources. The spec gives the constraints: the numeric id of a user is
  unique, the username is unique within the whole system, the token is the primary key
  of a session, and the owning user id of a session is a foreign key. Ids come from a
  sequence, so every id in use is below the next value of the sequence.
\<close>

definition db_wf :: "database \<Rightarrow> bool" where
  "db_wf db \<longleftrightarrow>
     distinct (map id_user (users db)) \<and>
     distinct (map username (users db)) \<and>
     distinct (map token (sessions db)) \<and>
     (\<forall>s \<in> set (sessions db). user_id s \<in> set (map id_user (users db))) \<and>
     (\<forall>u \<in> set (users db). id_user u < users_id_seq db)"

subsection \<open>Sessions\<close>

text \<open>The dictionary returned by \<open>verify_session\<close>: the columns of its \<^verbatim>\<open>SELECT\<close>.\<close>

record current_user =
  cu_id_user :: int
  cu_username :: string
  cu_country :: string
  cu_role :: string
  cu_is_active :: bool
  cu_expires_at :: timestamp

text \<open>
  \<open>create_session\<close>: \<open>new_token\<close> is the value drawn by \<^verbatim>\<open>secrets.token_urlsafe(32)\<close>.
  By the constraints of the schema that the spec gives, the \<^verbatim>\<open>INSERT\<close> fails on a token
  already in the table (primary key) and on a user id that is not in \<^verbatim>\<open>users\<close>
  (foreign key).
\<close>

definition create_session ::
  "database \<Rightarrow> timestamp \<Rightarrow> string \<Rightarrow> int \<Rightarrow> string option \<Rightarrow> string option
   \<Rightarrow> (error + string) \<times> database" where
  "create_session db now new_token uid ip ua =
     (let expires = now + timedelta_hours JWT_EXPIRE_HOURS in
      if new_token \<in> set (map token (sessions db)) \<or> uid \<notin> set (map id_user (users db))
      then (Inl IntegrityError, db)
      else (Inr new_token,
            db\<lparr>sessions := sessions db @
              [\<lparr>token = new_token, user_id = uid, expires_at = expires,
                ip_address = ip, user_agent = ua\<rparr>]\<rparr>))"

text \<open>The column list of the \<^verbatim>\<open>SELECT\<close> of \<open>verify_session\<close>, for one row of the join.\<close>

definition joined_row :: "user_row \<Rightarrow> session_row \<Rightarrow> current_user" where
  "joined_row u s =
     \<lparr>cu_id_user = id_user u, cu_username = username u, cu_country = country u,
      cu_role = role u, cu_is_active = is_active u, cu_expires_at = expires_at s\<rparr>"

definition verify_session :: "database \<Rightarrow> timestamp \<Rightarrow> string \<Rightarrow> current_user option" where
  "verify_session db now tok =
     (let result = fetchone
            [joined_row u s.
             s \<leftarrow> sessions db, u \<leftarrow> users db,
             user_id s = id_user u, token s = tok \<and> expires_at s > now]
      in case result of
           Some r \<Rightarrow> if cu_is_active r then Some r else None
         | None \<Rightarrow> None)"

definition delete_session :: "database \<Rightarrow> string \<Rightarrow> database" where
  "delete_session db tok = db\<lparr>sessions := filter (\<lambda>s. token s \<noteq> tok) (sessions db)\<rparr>"

subsection \<open>Authentication\<close>

text \<open>
  The dictionary returned by \<open>authenticate_user\<close>; \<open>auth_row\<close> is the column list of
  its \<^verbatim>\<open>SELECT\<close>.
\<close>

record auth_user =
  au_id_user :: int
  au_username :: string
  au_password_hash :: string
  au_country :: string
  au_role :: string
  au_email :: "string option"
  au_full_name :: "string option"
  au_is_active :: bool

definition auth_row :: "user_row \<Rightarrow> auth_user" where
  "auth_row u =
     \<lparr>au_id_user = id_user u, au_username = username u,
      au_password_hash = password_hash u, au_country = country u,
      au_role = role u, au_email = email u, au_full_name = full_name u,
      au_is_active = is_active u\<rparr>"

text \<open>
  \<open>authenticate_user\<close>. The parameter \<open>checkpw\<close> is \<^verbatim>\<open>bcrypt.checkpw\<close>: \<open>Some b\<close> when it
  returns \<open>b\<close>, \<open>None\<close> when it raises \<open>ValueError\<close>. The call is made only after the
  \<^verbatim>\<open>SELECT\<close> has found an active user of the country, and nothing guards it: the
  exception leaves the function, the connection is closed and nothing is written.
\<close>

definition authenticate_user ::
  "(string \<Rightarrow> string \<Rightarrow> bool option) \<Rightarrow> database \<Rightarrow> timestamp \<Rightarrow> string \<Rightarrow> string
   \<Rightarrow> string \<Rightarrow> (error + auth_user option) \<times> database" where
  "authenticate_user checkpw db now uname password ctry =
     (case fetchone
             [auth_row u.
              u \<leftarrow> users db, username u = uname \<and> country u = ctry \<and> is_active u] of
        None \<Rightarrow> (Inr None, db)
      | Some user \<Rightarrow>
          (case checkpw password (au_password_hash user) of
             None \<Rightarrow> (Inl ValueError, db)
           | Some matches \<Rightarrow>
               if matches
               then (Inr (Some user),
                     db\<lparr>users := map (\<lambda>u. if id_user u = au_id_user user
                                           then u\<lparr>last_login := Some now\<rparr> else u)
                                     (users db)\<rparr>)
               else (Inr None, db)))"

text \<open>
  \<open>hash_password\<close>: \<open>hashpw\<close> is \<^verbatim>\<open>bcrypt.hashpw\<close> and \<open>salt\<close> the value drawn by
  \<^verbatim>\<open>bcrypt.gensalt\<close>. The hash is taken to be computed; \<open>create_user\<close> calls it only
  after its check of the username.
\<close>

definition hash_password :: "(string \<Rightarrow> string \<Rightarrow> string) \<Rightarrow> string \<Rightarrow> string \<Rightarrow> string" where
  "hash_password hashpw salt password = hashpw password salt"

subsection \<open>Middleware\<close>

text \<open>
  A request: its cookies, its headers (keyed by the header's canonical name) and the
  host of the client, when known.
\<close>

record request =
  cookies :: "string \<rightharpoonup> string"
  req_headers :: "string \<rightharpoonup> string"
  client_host :: "string option"

text \<open>Python's truth value of an optional string: \<^verbatim>\<open>None\<close> and \<^verbatim>\<open>''\<close> are false.\<close>

definition truthy :: "string option \<Rightarrow> bool" where
  "truthy t = (case t of None \<Rightarrow> False | Some s \<Rightarrow> s \<noteq> [])"

text \<open>
  \<open>get_current_user\<close>. The index 1 of \<^verbatim>\<open>auth_header.split(' ')\<close> is in range: a header
  that starts with \<^verbatim>\<open>'Bearer '\<close> has a space, so the split has two parts or more
  (\<open>bearer_token\<close> below).
\<close>

definition get_current_user :: "database \<Rightarrow> timestamp \<Rightarrow> request \<Rightarrow> current_user option" where
  "get_current_user db now req =
     (let tok = cookies req ''auth_token'';
          tok = (if \<not> truthy tok then
                   (let auth_header = req_headers req ''Authorization'' in
                    if truthy auth_header \<and> startswith (the auth_header) ''Bearer ''
                    then Some (split_on CHR '' '' (the auth_header) ! 1)
                    else tok)
                 else tok)
      in if \<not> truthy tok then None
         else verify_session db now (the tok))"

definition require_auth :: "database \<Rightarrow> timestamp \<Rightarrow> request \<Rightarrow> error + current_user" where
  "require_auth db now req =
     (case get_current_user db now req of
        None \<Rightarrow> Inl (HTTPException 401 ''Authentication required''
                       [(''WWW-Authenticate'', ''Bearer'')])
      | Some user \<Rightarrow> Inr user)"

definition require_country :: "environ \<Rightarrow> request \<Rightarrow> current_user \<Rightarrow> error + current_user" where
  "require_country env req cur =
     (let api_country = getenv env ''COUNTRY'' ''FRANCE'' in
      if cu_country cur \<noteq> api_country
      then Inl (HTTPException 403
                  (''Access denied: This is '' @ api_country @ '' instance, you belong to ''
                   @ cu_country cur) [])
      else Inr cur)"

subsection \<open>User administration\<close>

text \<open>The row returned by the \<^verbatim>\<open>INSERT ... RETURNING\<close> of \<open>create_user\<close>.\<close>

record created_user =
  nu_id_user :: int
  nu_username :: string
  nu_country :: string
  nu_role :: string
  nu_email :: "string option"
  nu_full_name :: "string option"
  nu_created_at :: timestamp

text \<open>
  \<open>create_user\<close>. The schema is not part of the sources: the columns that the
  \<^verbatim>\<open>INSERT\<close> leaves out are given the next value of the id sequence, an active account,
  the current time as creation time and no last login. No property below depends on the
  last three.
\<close>

definition create_user ::
  "(string \<Rightarrow> string \<Rightarrow> string) \<Rightarrow> string \<Rightarrow> database \<Rightarrow> timestamp
   \<Rightarrow> string \<Rightarrow> string \<Rightarrow> string \<Rightarrow> string \<Rightarrow> string option \<Rightarrow> string option
   \<Rightarrow> (error + created_user) \<times> database" where
  "create_user hashpw salt db now uname password ctry rl mail fname =
     (if fetchone [id_user u. u \<leftarrow> users db, username u = uname] \<noteq> None
      then (Inl (HTTPException 400 ''Username already exists'' []), db)
      else
        (let pwhash = hash_password hashpw salt password;
             uid = users_id_seq db
         in (Inr \<lparr>nu_id_user = uid, nu_username = uname, nu_country = ctry, nu_role = rl,
                   nu_email = mail, nu_full_name = fname, nu_created_at = now\<rparr>,
             db\<lparr>users := users db @
                   [\<lparr>id_user = uid, username = uname, password_hash = pwhash,
                     country = ctry, role = rl, email = mail, full_name = fname,
                     is_active = True, created_at = now, last_login = None\<rparr>],
                users_id_seq := uid + 1\<rparr>)))"

text \<open>
  \<open>delete_user\<close>. The \<^verbatim>\<open>DELETE\<close> cascades to the sessions of the user, as the comment
  in the source says.
\<close>

definition delete_user :: "database \<Rightarrow> int \<Rightarrow> string \<Rightarrow> (error + bool) \<times> database" where
  "delete_user db uid admin_country =
     (case fetchone [u. u \<leftarrow> users db, id_user u = uid] of
        None \<Rightarrow> (Inl (HTTPException 404 ''User not found'' []), db)
      | Some user \<Rightarrow>
          if country user \<noteq> admin_country
          then (Inl (HTTPException 403 ''Can only delete users from your country'' []), db)
          else if startswith (role user) ''admin_''
          then (Inl (HTTPException 403 ''Cannot delete admin users'' []), db)
          else (Inr True,
                db\<lparr>users := filter (\<lambda>u. id_user u \<noteq> uid) (users db),
                   sessions := filter (\<lambda>s. user_id s \<noteq> uid) (sessions db)\<rparr>))"

subsection \<open>Endpoints\<close>

record login_request =
  lg_username :: string
  lg_password :: string

record public_user =
  pu_username :: string
  pu_country :: string
  pu_role :: string
  pu_full_name :: "string option"

record set_cookie =
  ck_key :: string
  ck_value :: string
  ck_httponly :: bool
  ck_secure :: bool
  ck_samesite :: string
  ck_max_age :: int

record login_response =
  lr_message :: string
  lr_user :: public_user
  lr_set_cookie :: set_cookie

text \<open>
  \<^verbatim>\<open>POST /auth/login\<close>. A failed \<open>authenticate_user\<close> has written nothing; an exception
  of \<open>authenticate_user\<close> leaves the endpoint as it is; a \<open>create_session\<close> that raises
  leaves the committed update of the last login in place.
\<close>

definition login ::
  "(string \<Rightarrow> string \<Rightarrow> bool option) \<Rightarrow> environ \<Rightarrow> database \<Rightarrow> timestamp \<Rightarrow> string
   \<Rightarrow> request \<Rightarrow> login_request \<Rightarrow> (error + login_response) \<times> database" where
  "login checkpw env db now new_token req login_data =
     (let ctry = getenv env ''COUNTRY'' ''FRANCE'' in
      case authenticate_user checkpw db now
             (lg_username login_data) (lg_password login_data) ctry of
        (Inl e, db1) \<Rightarrow> (Inl e, db1)
      | (Inr None, db1) \<Rightarrow>
          (Inl (HTTPException 401 ''Invalid credentials or wrong country'' []), db1)
      | (Inr (Some user), db1) \<Rightarrow>
          (let ip = client_host req;
               ua = (case req_headers req ''User-Agent'' of None \<Rightarrow> [] | Some v \<Rightarrow> v)
           in case create_session db1 now new_token (au_id_user user) ip (Some ua) of
                (Inl e, db2) \<Rightarrow> (Inl e, db2)
              | (Inr session_token, db2) \<Rightarrow>
                  (Inr \<lparr>lr_message = ''Login successful'',
                        lr_user = \<lparr>pu_username = au_username user,
                                   pu_country = au_country user,
                                   pu_role = au_role user,
                                   pu_full_name = au_full_name user\<rparr>,
                        lr_set_cookie = \<lparr>ck_key = ''auth_token'', ck_value = session_token,
                                         ck_httponly = True, ck_secure = False,
                                         ck_samesite = ''lax'',
                                         ck_max_age = 24 * 60 * 60\<rparr>\<rparr>,
                   db2)))"

record logout_response =
  lo_message :: string
  lo_delete_cookie :: string

text \<open>\<^verbatim>\<open>POST /auth/logout\<close>: no dependency on \<open>require_auth\<close>, no exception raised.\<close>

definition logout :: "database \<Rightarrow> request \<Rightarrow> logout_response \<times> database" where
  "logout db req =
     (let tok = cookies req ''auth_token'';
          db1 = (if truthy tok then delete_session db (the tok) else db)
      in (\<lparr>lo_message = ''Logout successful'', lo_delete_cookie = ''auth_token''\<rparr>, db1))"

record me_response =
  me_username :: string
  me_country :: string
  me_role :: string

text \<open>\<^verbatim>\<open>GET /auth/me\<close>: \<open>require_auth\<close> as dependency, then \<open>require_country\<close>.\<close>

definition get_current_user_info ::
  "environ \<Rightarrow> database \<Rightarrow> timestamp \<Rightarrow> request \<Rightarrow> error + me_response" where
  "get_current_user_info env db now req =
     (case require_auth db now req of
        Inl e \<Rightarrow> Inl e
      | Inr cur0 \<Rightarrow>
          (case require_country env req cur0 of
             Inl e \<Rightarrow> Inl e
           | Inr cur \<Rightarrow>
               Inr \<lparr>me_username = cu_username cur, me_country = cu_country cur,
                    me_role = cu_role cur\<rparr>))"

text \<open>
  The shape that every protected endpoint of \<^verbatim>\<open>api_pandemies.py\<close> has (\<^verbatim>\<open>/stats\<close>,
  \<^verbatim>\<open>/pays\<close>, \<^verbatim>\<open>/evolution\<close>, \<^verbatim>\<open>/top\<close>, \<^verbatim>\<open>/recent\<close>, \<^verbatim>\<open>/auth/users\<close>,
  \<^verbatim>\<open>/auth/cleanup\<close>): \<open>require_auth\<close> as dependency, \<open>require_country\<close> as first
  statement, then the body of the endpoint, here a parameter, on the user returned.
\<close>

definition protected_call ::
  "environ \<Rightarrow> database \<Rightarrow> timestamp \<Rightarrow> request \<Rightarrow> (current_user \<Rightarrow> error + 'a)
   \<Rightarrow> error + 'a" where
  "protected_call env db now req body =
     (case require_auth db now req of
        Inl e \<Rightarrow> Inl e
      | Inr cur0 \<Rightarrow>
          (case require_country env req cur0 of
             Inl e \<Rightarrow> Inl e
           | Inr cur \<Rightarrow> body cur))"

record create_user_request =
  cr_username :: string
  cr_password :: string
  cr_role :: string
  cr_email :: "string option"
  cr_full_name :: "string option"

record create_user_response =
  cur_message :: string
  cur_user :: created_user

definition valid_roles :: "string \<Rightarrow> string list" where
  "valid_roles ctry = [''chercheur_'' @ lower ctry, ''admin_'' @ lower ctry]"

text \<open>
  \<^verbatim>\<open>POST /auth/users\<close>. \<open>create_user\<close> raises nothing but an \<open>HTTPException\<close>, which
  the handler re-raises as it is.
\<close>

definition create_new_user ::
  "(string \<Rightarrow> string \<Rightarrow> string) \<Rightarrow> string \<Rightarrow> environ \<Rightarrow> database \<Rightarrow> timestamp
   \<Rightarrow> request \<Rightarrow> create_user_request \<Rightarrow> (error + create_user_response) \<times> database" where
  "create_new_user hashpw salt env db now req user_data =
     (case require_auth db now req of
        Inl e \<Rightarrow> (Inl e, db)
      | Inr cur0 \<Rightarrow>
          (case require_country env req cur0 of
             Inl e \<Rightarrow> (Inl e, db)
           | Inr cur \<Rightarrow>
               if \<not> startswith (cu_role cur) ''admin_''
               then (Inl (HTTPException 403 ''Admin access required'' []), db)
               else
                 (let ctry = cu_country cur in
                  if cr_role user_data \<notin> set (valid_roles ctry)
                  then (Inl (HTTPException 400
                               (''Invalid role. Valid roles for '' @ ctry @ '': ''
                                @ repr_list (valid_roles ctry)) []), db)
                  else
                    (case create_user hashpw salt db now (cr_username user_data)
                            (cr_password user_data) ctry (cr_role user_data)
                            (cr_email user_data) (cr_full_name user_data) of
                       (Inl e, db1) \<Rightarrow> (Inl e, db1)
                     | (Inr new_user, db1) \<Rightarrow>
                         (Inr \<lparr>cur_message = ''User created successfully'',
                               cur_user = new_user\<rparr>, db1)))))"

text \<open>\<^verbatim>\<open>DELETE /auth/users/{user_id}\<close>.\<close>

definition delete_user_endpoint ::
  "environ \<Rightarrow> database \<Rightarrow> timestamp \<Rightarrow> int \<Rightarrow> request \<Rightarrow> (error + string) \<times> database" where
  "delete_user_endpoint env db now uid req =
     (case require_auth db now req of
        Inl e \<Rightarrow> (Inl e, db)
      | Inr cur0 \<Rightarrow>
          (case require_country env req cur0 of
             Inl e \<Rightarrow> (Inl e, db)
           | Inr cur \<Rightarrow>
               if \<not> startswith (cu_role cur) ''admin_''
               then (Inl (HTTPException 403 ''Admin access required'' []), db)
               else
                 (case delete_user db uid (cu_country cur) of
                    (Inl e, db1) \<Rightarrow> (Inl e, db1)
                  | (Inr _, db1) \<Rightarrow> (Inr ''User deleted successfully'', db1))))"

subsection \<open>An example store\<close>

text \<open>
  Three users of two tenants and one live session each; \<open>ex_checkpw\<close> and \<open>ex_hashpw\<close>
  stand for bcrypt in the examples. As bcrypt 5.0.0 does, \<open>ex_checkpw\<close> raises for a
  password of more than 72 bytes; \<open>long_password\<close> is one of 73 bytes.
\<close>

definition ex_hashpw :: "string \<Rightarrow> string \<Rightarrow> string" where
  "ex_hashpw password salt = salt @ ''$'' @ password"

definition ex_checkpw :: "string \<Rightarrow> string \<Rightarrow> bool option" where
  "ex_checkpw password hashed =
     (if length password > 72 then None else Some (hashed = ''s$'' @ password))"

definition long_password :: string where
  "long_password = replicate 73 CHR ''x''"

definition alice :: user_row where
  "alice = \<lparr>id_user = 1, username = ''alice'', password_hash = ''s$correct-pw'',
            country = ''FRANCE'', role = ''chercheur_france'', email = None,
            full_name = Some ''Alice'', is_active = True, created_at = 0,
            last_login = None\<rparr>"

definition bob :: user_row where
  "bob = \<lparr>id_user = 2, username = ''bob'', password_hash = ''s$bob-pw'',
          country = ''USA'', role = ''admin_usa'', email = None,
          full_name = None, is_active = True, created_at = 0, last_login = None\<rparr>"

definition carol :: user_row where
  "carol = \<lparr>id_user = 3, username = ''carol'', password_hash = ''s$carol-pw'',
            country = ''FRANCE'', role = ''admin_france'', email = None,
            full_name = None, is_active = True, created_at = 0, last_login = None\<rparr>"

definition ex_session :: "string \<Rightarrow> int \<Rightarrow> session_row" where
  "ex_session tok uid = \<lparr>token = tok, user_id = uid, expires_at = 1000,
                         ip_address = None, user_agent = Some []\<rparr>"

definition ex_db :: database where
  "ex_db = \<lparr>users = [alice, bob, carol],
            sessions = [ex_session ''tok-alice'' 1, ex_session ''tok-bob'' 2,
                        ex_session ''tok-carol'' 3],
            users_id_seq = 4\<rparr>"

definition ex_request :: "string option \<Rightarrow> string option \<Rightarrow> request" where
  "ex_request cookie header =
     \<lparr>cookies = (\<lambda>k. if k = ''auth_token'' then cookie else None),
      req_headers = (\<lambda>k. if k = ''Authorization'' then header else None),
      client_host = None\<rparr>"

definition env_of :: "string \<Rightarrow> environ" where
  "env_of ctry = [''COUNTRY'' \<mapsto> ctry]"

section \<open>Properties\<close>

subsection \<open>Tables as lists\<close>

lemma fetchone_comprehension:
  "fetchone (concat (map (\<lambda>x. if P x then [f x] else []) xs)) = map_option f (find P xs)"
  by (induction xs) (simp_all add: fetchone_def)

lemma concat_key_absent:
  "k \<notin> key ` set xs \<Longrightarrow> concat (map (\<lambda>x. if key x = k then F x else []) xs) = []"
  by (induction xs) auto

lemma concat_key_distinct:
  "distinct (map key xs) \<Longrightarrow> x \<in> set xs \<Longrightarrow>
   concat (map (\<lambda>y. if key y = key x then F y else []) xs) = F x"
proof (induction xs)
  case Nil
  then show ?case by simp
next
  case (Cons a xs)
  show ?case
  proof (cases "a = x")
    case True
    with Cons.prems have "key x \<notin> key ` set xs" by auto
    then show ?thesis using True by (simp add: concat_key_absent)
  next
    case False
    with Cons.prems have "x \<in> set xs" "key a \<noteq> key x" by auto
    then show ?thesis using Cons by simp
  qed
qed

lemma distinct_key_unique:
  "distinct (map key xs) \<Longrightarrow> x \<in> set xs \<Longrightarrow> y \<in> set xs \<Longrightarrow> key x = key y \<Longrightarrow> x = y"
  by (simp add: distinct_map inj_on_def)

lemma find_unique:
  assumes "x \<in> set xs" and "P x" and "\<forall>y \<in> set xs. P y \<longrightarrow> y = x"
  shows "find P xs = Some x"
proof -
  from assms(1,2) have "find P xs \<noteq> None" by (auto simp: find_None_iff)
  then obtain y where y: "find P xs = Some y" by blast
  then have "y \<in> set xs" and "P y" by (auto simp: find_Some_iff)
  with assms(3) have "y = x" by blast
  with y show ?thesis by simp
qed

lemma ex_db_wf: "db_wf ex_db"
  by (simp add: db_wf_def ex_db_def alice_def bob_def carol_def ex_session_def)

subsection \<open>Resolving a session\<close>

lemma join_rows_of_session:
  "concat (map (\<lambda>u. if user_id s = id_user u
                     then if token s = tok \<and> now < expires_at s then [g u] else []
                     else []) us)
   = (if token s = tok
      then (if now < expires_at s
            then concat (map (\<lambda>u. if id_user u = user_id s then [g u] else []) us)
            else [])
      else [])"
  by (induction us) auto

lemma verify_session_unknown:
  "tok \<notin> token ` set (sessions db) \<Longrightarrow> verify_session db now tok = None"
  by (simp add: verify_session_def join_rows_of_session concat_key_absent fetchone_def)

lemma verify_session_known:
  assumes "distinct (map token (sessions db))" and "distinct (map id_user (users db))"
    and "s \<in> set (sessions db)" and "u \<in> set (users db)" and "user_id s = id_user u"
  shows "verify_session db now (token s) =
           (if now < expires_at s \<and> is_active u then Some (joined_row u s) else None)"
proof -
  have inner: "concat (map (\<lambda>v. if id_user v = user_id s then [joined_row v s] else [])
                         (users db)) = [joined_row u s]"
    using concat_key_distinct [OF assms(2) assms(4), of "\<lambda>v. [joined_row v s]"] assms(5)
    by simp
  have "concat (map (\<lambda>s'. concat (map (\<lambda>v. if user_id s' = id_user v
              then if token s' = token s \<and> now < expires_at s' then [joined_row v s'] else []
              else []) (users db))) (sessions db))
        = (if now < expires_at s then [joined_row u s] else [])"
    unfolding join_rows_of_session
    using concat_key_distinct [OF assms(1) assms(3),
        of "\<lambda>s'. if now < expires_at s'
                  then concat (map (\<lambda>v. if id_user v = user_id s' then [joined_row v s'] else [])
                                 (users db))
                  else []"] inner
    by simp
  then show ?thesis
    by (simp add: verify_session_def fetchone_def joined_row_def)
qed

text \<open>
  C7. In a store that meets the constraints of the schema, \<open>verify_session\<close> returns
  nothing exactly when the token is unknown, or the expiry of its session is not
  strictly later than the current time, or the owner of the session is inactive; in
  every other case it returns the identity of the owner, that is the owner's id,
  username, country and role, with the active flag set and the expiry of the session.
\<close>

theorem verify_session_semantics:
  assumes "db_wf db"
  shows "(verify_session db now tok = None \<longleftrightarrow>
            tok \<notin> token ` set (sessions db) \<or>
            (\<exists>s \<in> set (sessions db). token s = tok \<and> \<not> now < expires_at s) \<or>
            (\<exists>s \<in> set (sessions db). \<exists>u \<in> set (users db).
                token s = tok \<and> id_user u = user_id s \<and> \<not> is_active u)) \<and>
         (\<forall>s \<in> set (sessions db). \<forall>u \<in> set (users db).
            token s = tok \<and> id_user u = user_id s \<and> now < expires_at s \<and> is_active u \<longrightarrow>
            verify_session db now tok =
              Some \<lparr>cu_id_user = id_user u, cu_username = username u,
                    cu_country = country u, cu_role = role u, cu_is_active = True,
                    cu_expires_at = expires_at s\<rparr>)"
proof (cases "tok \<in> token ` set (sessions db)")
  case False
  then have "verify_session db now tok = None" by (rule verify_session_unknown)
  with False show ?thesis by auto
next
  case True
  then obtain s where s: "s \<in> set (sessions db)" "token s = tok" by auto
  from assms s(1) have "user_id s \<in> id_user ` set (users db)"
    by (simp add: db_wf_def)
  then obtain u where u: "u \<in> set (users db)" "id_user u = user_id s" by auto
  from assms have dt: "distinct (map token (sessions db))"
    and du: "distinct (map id_user (users db))" by (simp_all add: db_wf_def)
  have res: "verify_session db now tok =
               (if now < expires_at s \<and> is_active u then Some (joined_row u s) else None)"
    using verify_session_known [OF dt du s(1) u(1)] s(2) u(2) by simp
  have s_unique: "s' = s" if "s' \<in> set (sessions db)" "token s' = tok" for s'
    using distinct_key_unique [OF dt that(1) s(1)] that(2) s(2) by simp
  have u_unique: "u' = u" if "u' \<in> set (users db)" "id_user u' = user_id s" for u'
    using distinct_key_unique [OF du that(1) u(1)] that(2) u(2) by simp
  have none_iff: "verify_session db now tok = None \<longleftrightarrow> \<not> now < expires_at s \<or> \<not> is_active u"
    by (simp add: res)
  have part1: "verify_session db now tok = None \<longleftrightarrow>
            tok \<notin> token ` set (sessions db) \<or>
            (\<exists>s \<in> set (sessions db). token s = tok \<and> \<not> now < expires_at s) \<or>
            (\<exists>s \<in> set (sessions db). \<exists>u \<in> set (users db).
                token s = tok \<and> id_user u = user_id s \<and> \<not> is_active u)"
    unfolding none_iff using True s u s_unique u_unique by blast
  have part2: "\<forall>s \<in> set (sessions db). \<forall>u \<in> set (users db).
            token s = tok \<and> id_user u = user_id s \<and> now < expires_at s \<and> is_active u \<longrightarrow>
            verify_session db now tok =
              Some \<lparr>cu_id_user = id_user u, cu_username = username u,
                    cu_country = country u, cu_role = role u, cu_is_active = True,
                    cu_expires_at = expires_at s\<rparr>"
    using res s_unique u_unique by (auto simp: joined_row_def)
  from part1 part2 show ?thesis by (rule conjI)
qed

theorem verify_session_semantics_witness:
  "db_wf ex_db \<and>
   verify_session ex_db 5 ''tok-alice''
     = Some \<lparr>cu_id_user = 1, cu_username = ''alice'', cu_country = ''FRANCE'',
             cu_role = ''chercheur_france'', cu_is_active = True, cu_expires_at = 1000\<rparr> \<and>
   verify_session ex_db 999 ''tok-bob''
     = Some \<lparr>cu_id_user = 2, cu_username = ''bob'', cu_country = ''USA'',
             cu_role = ''admin_usa'', cu_is_active = True, cu_expires_at = 1000\<rparr> \<and>
   verify_session ex_db 1000 ''tok-alice'' = None \<and>
   verify_session ex_db 5 ''tok-nobody'' = None \<and>
   verify_session (ex_db\<lparr>users := [alice\<lparr>is_active := False\<rparr>, bob, carol]\<rparr>) 5 ''tok-alice''
     = None"
proof -
  have live: "verify_session ex_db 5 ''tok-alice''
     = Some \<lparr>cu_id_user = 1, cu_username = ''alice'', cu_country = ''FRANCE'',
             cu_role = ''chercheur_france'', cu_is_active = True, cu_expires_at = 1000\<rparr>"
    using verify_session_semantics [OF ex_db_wf, of 5 "''tok-alice''"]
    by (simp add: ex_db_def alice_def bob_def carol_def ex_session_def)
  have live2: "verify_session ex_db 999 ''tok-bob''
     = Some \<lparr>cu_id_user = 2, cu_username = ''bob'', cu_country = ''USA'',
             cu_role = ''admin_usa'', cu_is_active = True, cu_expires_at = 1000\<rparr>"
    using verify_session_semantics [OF ex_db_wf, of 999 "''tok-bob''"]
    by (simp add: ex_db_def alice_def bob_def carol_def ex_session_def)
  have expired: "verify_session ex_db 1000 ''tok-alice'' = None"
    using verify_session_semantics [OF ex_db_wf, of 1000 "''tok-alice''"]
    by (simp add: ex_db_def alice_def bob_def carol_def ex_session_def)
  have unknown: "verify_session ex_db 5 ''tok-nobody'' = None"
    using verify_session_semantics [OF ex_db_wf, of 5 "''tok-nobody''"]
    by (simp add: ex_db_def alice_def bob_def carol_def ex_session_def)
  have wf': "db_wf (ex_db\<lparr>users := [alice\<lparr>is_active := False\<rparr>, bob, carol]\<rparr>)"
    by (simp add: db_wf_def ex_db_def alice_def bob_def carol_def ex_session_def)
  have inactive:
    "verify_session (ex_db\<lparr>users := [alice\<lparr>is_active := False\<rparr>, bob, carol]\<rparr>) 5 ''tok-alice''
       = None"
    using verify_session_semantics [OF wf', of 5 "''tok-alice''"]
    by (simp add: ex_db_def alice_def bob_def carol_def ex_session_def)
  from ex_db_wf live live2 expired unknown inactive show ?thesis by simp
qed

subsection \<open>The tenant check\<close>

lemma get_current_user_info_protected:
  "get_current_user_info env db now req =
     protected_call env db now req
       (\<lambda>cur. Inr \<lparr>me_username = cu_username cur, me_country = cu_country cur,
                     me_role = cu_role cur\<rparr>)"
  by (simp add: get_current_user_info_def protected_call_def)

text \<open>
  C1. \<open>require_country\<close> returns the user if and only if the country of the user is
  the country configured for the instance, and raises status 403 on every mismatch.
  Whatever the request and however its token came, by cookie or by header: when
  \<open>require_auth\<close> has identified a user of another country, every protected call refuses
  with that same 403 before its body runs, so also \<^verbatim>\<open>/auth/me\<close>, and the two
  administration endpoints that write refuse as well and leave the store as it was; when
  it has identified a user of the instance's country, the protected call runs its body
  on that user.
\<close>

theorem require_country_fails_closed:
  "(\<forall>r. require_country env req cur = Inr r \<longleftrightarrow>
          r = cur \<and> cu_country cur = getenv env ''COUNTRY'' ''FRANCE'') \<and>
   (cu_country cur \<noteq> getenv env ''COUNTRY'' ''FRANCE'' \<longrightarrow>
      require_country env req cur =
        Inl (HTTPException 403
               (''Access denied: This is '' @ getenv env ''COUNTRY'' ''FRANCE''
                @ '' instance, you belong to '' @ cu_country cur) [])) \<and>
   (require_auth db now rq = Inr cur \<and>
    cu_country cur \<noteq> getenv env ''COUNTRY'' ''FRANCE'' \<longrightarrow>
      (let denied = HTTPException 403
               (''Access denied: This is '' @ getenv env ''COUNTRY'' ''FRANCE''
                @ '' instance, you belong to '' @ cu_country cur) []
       in protected_call env db now rq body = Inl denied \<and>
          get_current_user_info env db now rq = Inl denied \<and>
          create_new_user hashpw salt env db now rq ud = (Inl denied, db) \<and>
          delete_user_endpoint env db now uid rq = (Inl denied, db))) \<and>
   (require_auth db now rq = Inr cur \<and>
    cu_country cur = getenv env ''COUNTRY'' ''FRANCE'' \<longrightarrow>
      protected_call env db now rq body = body cur)"
proof -
  have rc: "require_country env req cur =
              (if cu_country cur = getenv env ''COUNTRY'' ''FRANCE'' then Inr cur
               else Inl (HTTPException 403
                      (''Access denied: This is '' @ getenv env ''COUNTRY'' ''FRANCE''
                       @ '' instance, you belong to '' @ cu_country cur) []))" for req
    by (simp add: require_country_def Let_def)
  have 1: "\<forall>r. require_country env req cur = Inr r \<longleftrightarrow>
          r = cur \<and> cu_country cur = getenv env ''COUNTRY'' ''FRANCE''"
    by (auto simp: rc)
  have 2: "cu_country cur \<noteq> getenv env ''COUNTRY'' ''FRANCE'' \<longrightarrow>
      require_country env req cur =
        Inl (HTTPException 403
               (''Access denied: This is '' @ getenv env ''COUNTRY'' ''FRANCE''
                @ '' instance, you belong to '' @ cu_country cur) [])"
    by (simp add: rc)
  have 3: "require_auth db now rq = Inr cur \<and>
    cu_country cur \<noteq> getenv env ''COUNTRY'' ''FRANCE'' \<longrightarrow>
      (let denied = HTTPException 403
               (''Access denied: This is '' @ getenv env ''COUNTRY'' ''FRANCE''
                @ '' instance, you belong to '' @ cu_country cur) []
       in protected_call env db now rq body = Inl denied \<and>
          get_current_user_info env db now rq = Inl denied \<and>
          create_new_user hashpw salt env db now rq ud = (Inl denied, db) \<and>
          delete_user_endpoint env db now uid rq = (Inl denied, db))"
    by (simp add: rc Let_def protected_call_def get_current_user_info_def
          create_new_user_def delete_user_endpoint_def)
  have 4: "require_auth db now rq = Inr cur \<and>
    cu_country cur = getenv env ''COUNTRY'' ''FRANCE'' \<longrightarrow>
      protected_call env db now rq body = body cur"
    by (simp add: rc protected_call_def)
  from 1 2 3 4 show ?thesis by (intro conjI)
qed

theorem require_country_fails_closed_witness:
  "require_auth ex_db 5 (ex_request (Some ''tok-alice'') None)
     = Inr \<lparr>cu_id_user = 1, cu_username = ''alice'', cu_country = ''FRANCE'',
            cu_role = ''chercheur_france'', cu_is_active = True, cu_expires_at = 1000\<rparr> \<and>
   require_auth ex_db 5 (ex_request None (Some ''Bearer tok-alice''))
     = Inr \<lparr>cu_id_user = 1, cu_username = ''alice'', cu_country = ''FRANCE'',
            cu_role = ''chercheur_france'', cu_is_active = True, cu_expires_at = 1000\<rparr> \<and>
   require_country (env_of ''USA'') (ex_request (Some ''tok-alice'') None)
      \<lparr>cu_id_user = 1, cu_username = ''alice'', cu_country = ''FRANCE'',
       cu_role = ''chercheur_france'', cu_is_active = True, cu_expires_at = 1000\<rparr>
     = Inl (HTTPException 403 ''Access denied: This is USA instance, you belong to FRANCE'' []) \<and>
   get_current_user_info (env_of ''USA'') ex_db 5 (ex_request (Some ''tok-alice'') None)
     = Inl (HTTPException 403 ''Access denied: This is USA instance, you belong to FRANCE'' []) \<and>
   get_current_user_info (env_of ''USA'') ex_db 5 (ex_request None (Some ''Bearer tok-alice''))
     = Inl (HTTPException 403 ''Access denied: This is USA instance, you belong to FRANCE'' []) \<and>
   delete_user_endpoint (env_of ''USA'') ex_db 5 1 (ex_request None (Some ''Bearer tok-alice''))
     = (Inl (HTTPException 403 ''Access denied: This is USA instance, you belong to FRANCE'' []),
        ex_db) \<and>
   protected_call (env_of ''FRANCE'') ex_db 5 (ex_request None (Some ''Bearer tok-alice'')) Inr
     = Inr \<lparr>cu_id_user = 1, cu_username = ''alice'', cu_country = ''FRANCE'',
            cu_role = ''chercheur_france'', cu_is_active = True, cu_expires_at = 1000\<rparr>"
proof -
  let ?a = "\<lparr>cu_id_user = 1, cu_username = ''alice'', cu_country = ''FRANCE'',
            cu_role = ''chercheur_france'', cu_is_active = True, cu_expires_at = 1000\<rparr>"
  let ?ud = "\<lparr>cr_username = ''dave'', cr_password = ''pw'', cr_role = ''admin_usa'',
              cr_email = None, cr_full_name = None\<rparr>"
  have live: "verify_session ex_db 5 ''tok-alice'' = Some ?a"
    by (simp add: verify_session_def ex_db_def alice_def bob_def carol_def ex_session_def
          fetchone_def joined_row_def)
  have ck: "require_auth ex_db 5 (ex_request (Some ''tok-alice'') None) = Inr ?a"
    by (simp add: require_auth_def get_current_user_def ex_request_def truthy_def Let_def live)
  have hd: "require_auth ex_db 5 (ex_request None (Some ''Bearer tok-alice'')) = Inr ?a"
    by (simp add: require_auth_def get_current_user_def ex_request_def truthy_def Let_def
          startswith_def live)
  have g: "getenv (env_of ''USA'') ''COUNTRY'' ''FRANCE'' = ''USA''"
    "getenv (env_of ''FRANCE'') ''COUNTRY'' ''FRANCE'' = ''FRANCE''"
    by (simp_all add: env_of_def getenv_def)
  note C = require_country_fails_closed [where env = "env_of ''USA''"
        and req = "ex_request (Some ''tok-alice'') None" and cur = ?a and db = ex_db
        and now = 5 and rq = "ex_request (Some ''tok-alice'') None"
        and body = Inr and hashpw = ex_hashpw and salt = "''s''" and uid = 1 and ud = ?ud]
  note H = require_country_fails_closed [where env = "env_of ''USA''"
        and req = "ex_request (Some ''tok-alice'') None" and cur = ?a and db = ex_db
        and now = 5 and rq = "ex_request None (Some ''Bearer tok-alice'')"
        and body = Inr and hashpw = ex_hashpw and salt = "''s''" and uid = 1 and ud = ?ud]
  note F = require_country_fails_closed [where env = "env_of ''FRANCE''"
        and req = "ex_request (Some ''tok-alice'') None" and cur = ?a and db = ex_db
        and now = 5 and rq = "ex_request None (Some ''Bearer tok-alice'')"
        and body = Inr and hashpw = ex_hashpw and salt = "''s''" and uid = 1 and ud = ?ud]
  have 1: "require_country (env_of ''USA'') (ex_request (Some ''tok-alice'') None) ?a
     = Inl (HTTPException 403 ''Access denied: This is USA instance, you belong to FRANCE'' [])"
    using C [THEN conjunct2, THEN conjunct1] by (simp add: g)
  have 2: "get_current_user_info (env_of ''USA'') ex_db 5 (ex_request (Some ''tok-alice'') None)
     = Inl (HTTPException 403 ''Access denied: This is USA instance, you belong to FRANCE'' [])"
    using C [THEN conjunct2, THEN conjunct2, THEN conjunct1] ck by (simp add: g Let_def)
  have 3: "get_current_user_info (env_of ''USA'') ex_db 5
             (ex_request None (Some ''Bearer tok-alice''))
     = Inl (HTTPException 403 ''Access denied: This is USA instance, you belong to FRANCE'' [])"
    using H [THEN conjunct2, THEN conjunct2, THEN conjunct1] hd by (simp add: g Let_def)
  have 4: "delete_user_endpoint (env_of ''USA'') ex_db 5 1
             (ex_request None (Some ''Bearer tok-alice''))
     = (Inl (HTTPException 403 ''Access denied: This is USA instance, you belong to FRANCE'' []),
        ex_db)"
    using H [THEN conjunct2, THEN conjunct2, THEN conjunct1] hd by (simp add: g Let_def)
  have 5: "protected_call (env_of ''FRANCE'') ex_db 5
             (ex_request None (Some ''Bearer tok-alice'')) Inr = Inr ?a"
    using F [THEN conjunct2, THEN conjunct2, THEN conjunct2] hd by (simp add: g)
  from ck hd 1 2 3 4 5 show ?thesis by (intro conjI)
qed

subsection \<open>Login failures\<close>

lemma find_all_sat:
  "(\<forall>x \<in> set xs. P x \<longrightarrow> Q x) \<Longrightarrow> (case find P xs of None \<Rightarrow> True | Some x \<Rightarrow> Q x)"
  by (induction xs) auto

lemma authenticate_user_find:
  "authenticate_user checkpw db now uname password ctry =
     (case find (\<lambda>u. username u = uname \<and> country u = ctry \<and> is_active u) (users db) of
        None \<Rightarrow> (Inr None, db)
      | Some u \<Rightarrow>
          (case checkpw password (password_hash u) of
             None \<Rightarrow> (Inl ValueError, db)
           | Some matches \<Rightarrow>
               if matches
               then (Inr (Some (auth_row u)),
                     db\<lparr>users := map (\<lambda>v. if id_user v = id_user u
                                           then v\<lparr>last_login := Some now\<rparr> else v)
                                     (users db)\<rparr>)
               else (Inr None, db)))"
  by (simp add: authenticate_user_def fetchone_comprehension auth_row_def split: option.splits)

lemma authenticate_user_raises:
  "authenticate_user checkpw db now uname password ctry = (Inl e, db') \<Longrightarrow> e = ValueError"
  by (auto simp add: authenticate_user_find split: option.splits if_splits)

text \<open>
  As long as \<open>checkpw\<close> answers, the refusal is uniform: a login is refused with one and
  the same value, status 401 and the detail \<^verbatim>\<open>Invalid credentials or wrong country\<close>,
  and writes nothing, whenever \<open>checkpw\<close> answers no for every active user of the
  instance's country that has the given username; so for an unknown username, a user of
  another country, an inactive user and a wrong password that \<open>checkpw\<close> refuses.
\<close>

lemma login_rejects:
  assumes "\<forall>u \<in> set (users db).
       username u = lg_username ld \<and> country u = getenv env ''COUNTRY'' ''FRANCE'' \<and> is_active u
       \<longrightarrow> checkpw (lg_password ld) (password_hash u) = Some False"
  shows "login checkpw env db now new_token req ld =
          (Inl (HTTPException 401 ''Invalid credentials or wrong country'' []), db)"
proof -
  have "authenticate_user checkpw db now (lg_username ld) (lg_password ld)
          (getenv env ''COUNTRY'' ''FRANCE'') = (Inr None, db)"
    using find_all_sat [of "users db"
        "\<lambda>u. username u = lg_username ld \<and> country u = getenv env ''COUNTRY'' ''FRANCE''
             \<and> is_active u"
        "\<lambda>u. checkpw (lg_password ld) (password_hash u) = Some False", OF assms]
    by (auto simp add: authenticate_user_find split: option.splits)
  then show ?thesis
    by (simp add: login_def)
qed

lemma login_wrong_tenant_eq_wrong_password:
  assumes "db_wf db" and "a \<in> set (users db)" and "country a \<noteq> other"
    and "checkpw wrong_pw (password_hash a) = Some False"
  shows "login checkpw (env(''COUNTRY'' \<mapsto> other)) db now new_token req
            \<lparr>lg_username = username a, lg_password = pw\<rparr>
        = login checkpw (env(''COUNTRY'' \<mapsto> country a)) db now' new_token' req'
            \<lparr>lg_username = username a, lg_password = wrong_pw\<rparr>"
proof -
  from assms(1) have du: "distinct (map username (users db))" by (simp add: db_wf_def)
  have same: "v = a" if "v \<in> set (users db)" "username v = username a" for v
    using distinct_key_unique [OF du that(1) assms(2) that(2)] .
  have l: "login checkpw (env(''COUNTRY'' \<mapsto> other)) db now new_token req
            \<lparr>lg_username = username a, lg_password = pw\<rparr>
           = (Inl (HTTPException 401 ''Invalid credentials or wrong country'' []), db)"
  proof (rule login_rejects)
    show "\<forall>u\<in>set (users db).
       username u = lg_username \<lparr>lg_username = username a, lg_password = pw\<rparr> \<and>
       country u = getenv (env(''COUNTRY'' \<mapsto> other)) ''COUNTRY'' ''FRANCE'' \<and> is_active u \<longrightarrow>
       checkpw (lg_password \<lparr>lg_username = username a, lg_password = pw\<rparr>) (password_hash u)
         = Some False"
      using same assms(3) by (auto simp: getenv_def)
  qed
  have r: "login checkpw (env(''COUNTRY'' \<mapsto> country a)) db now' new_token' req'
            \<lparr>lg_username = username a, lg_password = wrong_pw\<rparr>
           = (Inl (HTTPException 401 ''Invalid credentials or wrong country'' []), db)"
  proof (rule login_rejects)
    show "\<forall>u\<in>set (users db).
       username u = lg_username \<lparr>lg_username = username a, lg_password = wrong_pw\<rparr> \<and>
       country u = getenv (env(''COUNTRY'' \<mapsto> country a)) ''COUNTRY'' ''FRANCE'' \<and> is_active u
       \<longrightarrow> checkpw (lg_password \<lparr>lg_username = username a, lg_password = wrong_pw\<rparr>)
               (password_hash u) = Some False"
      using same assms(4) by (auto simp: getenv_def)
  qed
  from l r show ?thesis by simp
qed

text \<open>
  Where \<open>checkpw\<close> raises for the user that the \<^verbatim>\<open>SELECT\<close> has found, the exception is
  the result of the login.
\<close>

lemma login_checkpw_raises:
  assumes "db_wf db" and "a \<in> set (users db)" and "is_active a"
    and "country a = getenv env ''COUNTRY'' ''FRANCE''"
    and "checkpw pw (password_hash a) = None"
  shows "login checkpw env db now new_token req \<lparr>lg_username = username a, lg_password = pw\<rparr>
           = (Inl ValueError, db)"
proof -
  from assms(1) have du: "distinct (map username (users db))" by (simp add: db_wf_def)
  have only: "\<forall>v \<in> set (users db).
       username v = username a \<and> country v = getenv env ''COUNTRY'' ''FRANCE'' \<and> is_active v
       \<longrightarrow> v = a"
    using distinct_key_unique [OF du _ assms(2)] by auto
  have "find (\<lambda>v. username v = username a \<and> country v = getenv env ''COUNTRY'' ''FRANCE''
                   \<and> is_active v) (users db) = Some a"
    using assms(2) _ only by (rule find_unique) (simp add: assms(3,4))
  then show ?thesis
    by (simp add: login_def authenticate_user_find assms(5))
qed

text \<open>
  C2. The code does not keep the claim. With a password of 73 bytes, which
  \<^verbatim>\<open>bcrypt.checkpw\<close> of bcrypt 5.0.0 refuses with an exception, the login of \<open>alice\<close> at
  the instance of her country ends with the exception (status 500), while the login of an
  unknown username, and the login of \<open>alice\<close> at the instance of another country, end
  with status 401: the answer tells an existing user of the tenant from the other causes.
\<close>

theorem login_checkpw_raises_distinguishes:
  "length long_password = 73 \<and>
   login ex_checkpw (env_of ''FRANCE'') ex_db 5 ''t1'' (ex_request None None)
       \<lparr>lg_username = ''alice'', lg_password = long_password\<rparr>
     = (Inl ValueError, ex_db) \<and>
   login ex_checkpw (env_of ''FRANCE'') ex_db 5 ''t1'' (ex_request None None)
       \<lparr>lg_username = ''nobody'', lg_password = long_password\<rparr>
     = (Inl (HTTPException 401 ''Invalid credentials or wrong country'' []), ex_db) \<and>
   login ex_checkpw (env_of ''USA'') ex_db 5 ''t1'' (ex_request None None)
       \<lparr>lg_username = ''alice'', lg_password = ''correct-pw''\<rparr>
     = (Inl (HTTPException 401 ''Invalid credentials or wrong country'' []), ex_db) \<and>
   login ex_checkpw (env_of ''FRANCE'') ex_db 5 ''t1'' (ex_request None None)
       \<lparr>lg_username = ''alice'', lg_password = ''wrong-pw''\<rparr>
     = (Inl (HTTPException 401 ''Invalid credentials or wrong country'' []), ex_db)"
proof -
  have n: "length long_password = 73" by (simp add: long_password_def)
  have u: "users ex_db = [alice, bob, carol]" by (simp add: ex_db_def)
  have f: "username alice = ''alice''" "username bob = ''bob''" "username carol = ''carol''"
    "country alice = ''FRANCE''" "is_active alice" "password_hash alice = ''s$correct-pw''"
    by (simp_all add: alice_def bob_def carol_def)
  have g: "getenv (env_of ''FRANCE'') ''COUNTRY'' ''FRANCE'' = ''FRANCE''"
    "getenv (env_of ''USA'') ''COUNTRY'' ''FRANCE'' = ''USA''"
    by (simp_all add: env_of_def getenv_def)
  have c: "ex_checkpw long_password h = None" for h
    by (simp add: ex_checkpw_def n)
  have 1: "login ex_checkpw (env_of ''FRANCE'') ex_db 5 ''t1'' (ex_request None None)
       \<lparr>lg_username = ''alice'', lg_password = long_password\<rparr> = (Inl ValueError, ex_db)"
    by (simp add: login_def authenticate_user_find g u f c)
  have 2: "login ex_checkpw (env_of ''FRANCE'') ex_db 5 ''t1'' (ex_request None None)
       \<lparr>lg_username = ''nobody'', lg_password = long_password\<rparr>
     = (Inl (HTTPException 401 ''Invalid credentials or wrong country'' []), ex_db)"
    by (simp add: login_def authenticate_user_find g u f)
  have 3: "login ex_checkpw (env_of ''USA'') ex_db 5 ''t1'' (ex_request None None)
       \<lparr>lg_username = ''alice'', lg_password = ''correct-pw''\<rparr>
     = (Inl (HTTPException 401 ''Invalid credentials or wrong country'' []), ex_db)"
    by (simp add: login_def authenticate_user_find g u f)
  have 4: "login ex_checkpw (env_of ''FRANCE'') ex_db 5 ''t1'' (ex_request None None)
       \<lparr>lg_username = ''alice'', lg_password = ''wrong-pw''\<rparr>
     = (Inl (HTTPException 401 ''Invalid credentials or wrong country'' []), ex_db)"
    by (simp add: login_def authenticate_user_find g u f ex_checkpw_def)
  from n 1 2 3 4 show ?thesis by simp
qed

subsection \<open>Creating and deleting users\<close>

text \<open>
  C6. \<open>create_user\<close> raises status 400 with the detail \<^verbatim>\<open>Username already exists\<close>
  if and only if some user of the store, of whatever country, has the requested
  username; it writes nothing then. Otherwise it returns the new user, who is in the
  store afterwards with the requested username, country and role.
\<close>

theorem create_user_duplicate_iff:
  "(fst (create_user hashpw salt db now uname password ctry rl mail fname)
      = Inl (HTTPException 400 ''Username already exists'' [])
    \<longleftrightarrow> (\<exists>u \<in> set (users db). username u = uname)) \<and>
   ((\<exists>u \<in> set (users db). username u = uname) \<longrightarrow>
      create_user hashpw salt db now uname password ctry rl mail fname
        = (Inl (HTTPException 400 ''Username already exists'' []), db)) \<and>
   (\<not> (\<exists>u \<in> set (users db). username u = uname) \<longrightarrow>
      (\<exists>r db'. create_user hashpw salt db now uname password ctry rl mail fname = (Inr r, db')
          \<and> nu_username r = uname \<and> nu_country r = ctry \<and> nu_role r = rl
          \<and> (\<exists>u \<in> set (users db'). username u = uname \<and> country u = ctry \<and> role u = rl)))"
proof -
  have "fetchone (concat (map (\<lambda>u. if username u = uname then [id_user u] else []) (users db)))
          \<noteq> None
        \<longleftrightarrow> (\<exists>u \<in> set (users db). username u = uname)"
    by (auto simp add: fetchone_comprehension find_None_iff)
  then show ?thesis
    by (auto simp add: create_user_def Let_def)
qed

theorem create_user_duplicate_iff_witness:
  "alice \<in> set (users ex_db) \<and> username alice = ''alice'' \<and> country alice = ''FRANCE'' \<and>
   create_user ex_hashpw ''s'' ex_db 5 ''alice'' ''pw'' ''USA'' ''chercheur_usa'' None None
     = (Inl (HTTPException 400 ''Username already exists'' []), ex_db) \<and>
   fst (create_user ex_hashpw ''s'' ex_db 5 ''dave'' ''pw'' ''USA'' ''chercheur_usa'' None None)
     \<noteq> Inl (HTTPException 400 ''Username already exists'' [])"
proof -
  have m: "alice \<in> set (users ex_db)" by (simp add: ex_db_def)
  have n: "username alice = ''alice''" "country alice = ''FRANCE''" by (simp_all add: alice_def)
  have dup: "create_user ex_hashpw ''s'' ex_db 5 ''alice'' ''pw'' ''USA'' ''chercheur_usa'' None None
     = (Inl (HTTPException 400 ''Username already exists'' []), ex_db)"
    using create_user_duplicate_iff [of ex_hashpw "''s''" ex_db 5 "''alice''" "''pw''" "''USA''"
        "''chercheur_usa''" None None] m n by blast
  have fresh: "fst (create_user ex_hashpw ''s'' ex_db 5 ''dave'' ''pw'' ''USA'' ''chercheur_usa''
                      None None)
     \<noteq> Inl (HTTPException 400 ''Username already exists'' [])"
    using create_user_duplicate_iff [of ex_hashpw "''s''" ex_db 5 "''dave''" "''pw''" "''USA''"
        "''chercheur_usa''" None None]
    by (simp add: ex_db_def alice_def bob_def carol_def)
  from m n dup fresh show ?thesis by simp
qed

lemma delete_user_find:
  "delete_user db uid admin_country =
     (case find (\<lambda>u. id_user u = uid) (users db) of
        None \<Rightarrow> (Inl (HTTPException 404 ''User not found'' []), db)
      | Some user \<Rightarrow>
          if country user \<noteq> admin_country
          then (Inl (HTTPException 403 ''Can only delete users from your country'' []), db)
          else if startswith (role user) ''admin_''
          then (Inl (HTTPException 403 ''Cannot delete admin users'' []), db)
          else (Inr True,
                db\<lparr>users := filter (\<lambda>u. id_user u \<noteq> uid) (users db),
                   sessions := filter (\<lambda>s. user_id s \<noteq> uid) (sessions db)\<rparr>))"
  using fetchone_comprehension [of "\<lambda>u. id_user u = uid" "\<lambda>u. u" "users db"]
  by (simp add: delete_user_def option.map_ident)

lemma find_distinct_key:
  "distinct (map key xs) \<Longrightarrow> x \<in> set xs \<Longrightarrow> find (\<lambda>y. key y = key x) xs = Some x"
  by (induction xs) (auto simp: image_iff)

text \<open>
  C4, as the code has it. In a store that meets the constraints of the schema, for every
  user whose role starts with \<^verbatim>\<open>admin_\<close> and for every country given as the caller's,
  \<open>delete_user\<close> raises status 403 and leaves the store as it was: with the detail
  \<^verbatim>\<open>Cannot delete admin users\<close> when the user is of the caller's country, and with
  \<^verbatim>\<open>Can only delete users from your country\<close> when not, since the country is checked
  first. The endpoint fails for every request and leaves the store as it was.
\<close>

theorem delete_user_admin_protected:
  assumes "db_wf db" and "u \<in> set (users db)" and "startswith (role u) ''admin_''"
  shows "delete_user db (id_user u) admin_country =
           (Inl (HTTPException 403
                   (if country u = admin_country then ''Cannot delete admin users''
                    else ''Can only delete users from your country'') []), db) \<and>
         (\<exists>e. delete_user_endpoint env db now (id_user u) req = (Inl e, db))"
proof -
  from assms(1) have "distinct (map id_user (users db))" by (simp add: db_wf_def)
  then have f: "find (\<lambda>v. id_user v = id_user u) (users db) = Some u"
    using assms(2) by (rule find_distinct_key)
  have d: "delete_user db (id_user u) c =
           (Inl (HTTPException 403
                   (if country u = c then ''Cannot delete admin users''
                    else ''Can only delete users from your country'') []), db)" for c
    using f assms(3) by (simp add: delete_user_find)
  have e: "\<exists>e. delete_user_endpoint env db now (id_user u) req = (Inl e, db)"
    by (simp add: delete_user_endpoint_def d split: sum.splits)
  from d e show ?thesis by simp
qed

theorem delete_user_admin_protected_witness:
  "db_wf ex_db \<and> carol \<in> set (users ex_db) \<and> startswith (role carol) ''admin_'' \<and>
   delete_user ex_db 3 ''FRANCE''
     = (Inl (HTTPException 403 ''Cannot delete admin users'' []), ex_db) \<and>
   delete_user ex_db 3 ''USA''
     = (Inl (HTTPException 403 ''Can only delete users from your country'' []), ex_db)"
proof -
  have m: "carol \<in> set (users ex_db)" by (simp add: ex_db_def)
  have a: "startswith (role carol) ''admin_''" by (simp add: carol_def startswith_def)
  show ?thesis
    using m a delete_user_admin_protected [OF ex_db_wf m a, of "''FRANCE''"]
      delete_user_admin_protected [OF ex_db_wf m a, of "''USA''"] ex_db_wf
    by (simp add: carol_def)
qed

text \<open>
  The claim C4 as the spec states it fails: \<open>bob\<close> is an administrator of the country
  USA, and a caller of the country FRANCE gets the error of a foreign country, not the
  error of a protected role.
\<close>

theorem delete_foreign_admin_counterexample:
  "bob \<in> set (users ex_db) \<and> startswith (role bob) ''admin_'' \<and>
   delete_user ex_db (id_user bob) ''FRANCE''
     = (Inl (HTTPException 403 ''Can only delete users from your country'' []), ex_db) \<and>
   fst (delete_user ex_db (id_user bob) ''FRANCE'')
     \<noteq> Inl (HTTPException 403 ''Cannot delete admin users'' [])"
  by (simp add: delete_user_find ex_db_def alice_def bob_def carol_def startswith_def)

subsection \<open>The default country\<close>

text \<open>
  C10. When the variable \<^verbatim>\<open>COUNTRY\<close> is not set, \<open>login\<close> does what it does on an
  instance configured for FRANCE: it refuses with 401 exactly when \<open>authenticate_user\<close>
  finds nobody for the country FRANCE; and \<open>require_country\<close> returns exactly the users
  of the country FRANCE and raises 403 for the others. Nothing fails for want of a
  configured country.
\<close>

theorem unset_country_defaults_to_france:
  assumes "env ''COUNTRY'' = None"
  shows "login checkpw env db now new_token req ld
           = login checkpw (env(''COUNTRY'' \<mapsto> ''FRANCE'')) db now new_token req ld \<and>
         (fst (login checkpw env db now new_token req ld)
            = Inl (HTTPException 401 ''Invalid credentials or wrong country'' [])
          \<longleftrightarrow> fst (authenticate_user checkpw db now (lg_username ld) (lg_password ld) ''FRANCE'')
                = Inr None) \<and>
         (\<forall>r. require_country env req cur = Inr r \<longleftrightarrow> r = cur \<and> cu_country cur = ''FRANCE'') \<and>
         (cu_country cur \<noteq> ''FRANCE'' \<longrightarrow>
            require_country env req cur =
              Inl (HTTPException 403
                     (''Access denied: This is FRANCE instance, you belong to ''
                      @ cu_country cur) []))"
proof -
  from assms have g: "getenv env ''COUNTRY'' ''FRANCE'' = ''FRANCE''"
    by (simp add: getenv_def)
  have g': "getenv (env(''COUNTRY'' \<mapsto> ''FRANCE'')) ''COUNTRY'' ''FRANCE'' = ''FRANCE''"
    by (simp add: getenv_def)
  have 1: "login checkpw env db now new_token req ld
           = login checkpw (env(''COUNTRY'' \<mapsto> ''FRANCE'')) db now new_token req ld"
    unfolding login_def g g' by (rule refl)
  have 2: "fst (login checkpw env db now new_token req ld)
            = Inl (HTTPException 401 ''Invalid credentials or wrong country'' [])
          \<longleftrightarrow> fst (authenticate_user checkpw db now (lg_username ld) (lg_password ld) ''FRANCE'')
                = Inr None"
    unfolding login_def g
    by (auto simp: Let_def create_session_def dest: authenticate_user_raises
          split: prod.splits option.splits sum.splits)
  have 3: "(\<forall>r. require_country env req cur = Inr r \<longleftrightarrow> r = cur \<and> cu_country cur = ''FRANCE'') \<and>
         (cu_country cur \<noteq> ''FRANCE'' \<longrightarrow>
            require_country env req cur =
              Inl (HTTPException 403
                     (''Access denied: This is FRANCE instance, you belong to ''
                      @ cu_country cur) []))"
    unfolding require_country_def g by (auto simp: Let_def)
  from 1 2 3 show ?thesis by simp
qed

theorem unset_country_defaults_to_france_witness:
  "(Map.empty :: environ) ''COUNTRY'' = None \<and>
   require_country Map.empty (ex_request None None) (joined_row alice (ex_session ''tok-alice'' 1))
     = Inr (joined_row alice (ex_session ''tok-alice'' 1)) \<and>
   require_country Map.empty (ex_request None None) (joined_row bob (ex_session ''tok-bob'' 2))
     = Inl (HTTPException 403 ''Access denied: This is FRANCE instance, you belong to USA'' []) \<and>
   login ex_checkpw Map.empty ex_db 5 ''t1'' (ex_request None None)
       \<lparr>lg_username = ''alice'', lg_password = ''correct-pw''\<rparr>
     = login ex_checkpw (env_of ''FRANCE'') ex_db 5 ''t1'' (ex_request None None)
       \<lparr>lg_username = ''alice'', lg_password = ''correct-pw''\<rparr> \<and>
   fst (login ex_checkpw Map.empty ex_db 5 ''t1'' (ex_request None None)
       \<lparr>lg_username = ''alice'', lg_password = ''correct-pw''\<rparr>)
     \<noteq> Inl (HTTPException 401 ''Invalid credentials or wrong country'' []) \<and>
   fst (login ex_checkpw Map.empty ex_db 5 ''t1'' (ex_request None None)
       \<lparr>lg_username = ''bob'', lg_password = ''bob-pw''\<rparr>)
     = Inl (HTTPException 401 ''Invalid credentials or wrong country'' [])"
proof -
  have e: "(Map.empty :: environ) ''COUNTRY'' = None" by simp
  have a: "fst (authenticate_user ex_checkpw ex_db 5 ''alice'' ''correct-pw'' ''FRANCE'')
             \<noteq> Inr None"
    by (simp add: authenticate_user_find ex_db_def alice_def bob_def carol_def ex_checkpw_def)
  have b: "fst (authenticate_user ex_checkpw ex_db 5 ''bob'' ''bob-pw'' ''FRANCE'') = Inr None"
    by (simp add: authenticate_user_find ex_db_def alice_def bob_def carol_def ex_checkpw_def)
  have ca: "cu_country (joined_row alice (ex_session ''tok-alice'' 1)) = ''FRANCE''"
    by (simp add: joined_row_def alice_def)
  have cb: "cu_country (joined_row bob (ex_session ''tok-bob'' 2)) = ''USA''"
    by (simp add: joined_row_def bob_def)
  note A = unset_country_defaults_to_france [OF e, where checkpw = ex_checkpw and db = ex_db
        and now = 5 and new_token = "''t1''" and req = "ex_request None None"
        and ld = "\<lparr>lg_username = ''alice'', lg_password = ''correct-pw''\<rparr>"
        and cur = "joined_row alice (ex_session ''tok-alice'' 1)"]
  note B = unset_country_defaults_to_france [OF e, where checkpw = ex_checkpw and db = ex_db
        and now = 5 and new_token = "''t1''" and req = "ex_request None None"
        and ld = "\<lparr>lg_username = ''bob'', lg_password = ''bob-pw''\<rparr>"
        and cur = "joined_row bob (ex_session ''tok-bob'' 2)"]
  have 1: "require_country Map.empty (ex_request None None)
             (joined_row alice (ex_session ''tok-alice'' 1))
           = Inr (joined_row alice (ex_session ''tok-alice'' 1))"
    using A ca by blast
  have 2: "require_country Map.empty (ex_request None None)
             (joined_row bob (ex_session ''tok-bob'' 2))
           = Inl (HTTPException 403
                    ''Access denied: This is FRANCE instance, you belong to USA'' [])"
    using B cb by simp
  have 3: "login ex_checkpw Map.empty ex_db 5 ''t1'' (ex_request None None)
       \<lparr>lg_username = ''alice'', lg_password = ''correct-pw''\<rparr>
     = login ex_checkpw (env_of ''FRANCE'') ex_db 5 ''t1'' (ex_request None None)
       \<lparr>lg_username = ''alice'', lg_password = ''correct-pw''\<rparr>"
    using A by (simp add: env_of_def)
  have 4: "fst (login ex_checkpw Map.empty ex_db 5 ''t1'' (ex_request None None)
       \<lparr>lg_username = ''alice'', lg_password = ''correct-pw''\<rparr>)
     \<noteq> Inl (HTTPException 401 ''Invalid credentials or wrong country'' [])"
    using A [THEN conjunct2, THEN conjunct1] a by simp
  have 5: "fst (login ex_checkpw Map.empty ex_db 5 ''t1'' (ex_request None None)
       \<lparr>lg_username = ''bob'', lg_password = ''bob-pw''\<rparr>)
     = Inl (HTTPException 401 ''Invalid credentials or wrong country'' [])"
    using B [THEN conjunct2, THEN conjunct1] b by simp
  from e 1 2 3 4 5 show ?thesis by blast
qed

subsection \<open>The schema constraints are preserved\<close>

lemma touched_ids:
  "map (id_user \<circ> (\<lambda>v. if id_user v = k then v\<lparr>last_login := t\<rparr> else v)) xs = map id_user xs"
  by (induction xs) simp_all

lemma touched_usernames:
  "map (username \<circ> (\<lambda>v. if id_user v = k then v\<lparr>last_login := t\<rparr> else v)) xs
     = map username xs"
  by (induction xs) simp_all

lemma db_wf_alt:
  "db_wf db \<longleftrightarrow>
     distinct (map id_user (users db)) \<and>
     distinct (map username (users db)) \<and>
     distinct (map token (sessions db)) \<and>
     (\<forall>s \<in> set (sessions db). user_id s \<in> set (map id_user (users db))) \<and>
     (\<forall>i \<in> set (map id_user (users db)). i < users_id_seq db)"
  unfolding db_wf_def by simp

lemma db_wf_touch:
  assumes "db_wf db"
  shows "db_wf (db\<lparr>users := map (\<lambda>v. if id_user v = k then v\<lparr>last_login := t\<rparr> else v)
                              (users db)\<rparr>)"
proof -
  let ?db = "db\<lparr>users := map (\<lambda>v. if id_user v = k then v\<lparr>last_login := t\<rparr> else v)
                              (users db)\<rparr>"
  have "map id_user (users ?db) = map id_user (users db)"
    and "map username (users ?db) = map username (users db)"
    and "sessions ?db = sessions db" and "users_id_seq ?db = users_id_seq db"
    by (simp_all add: touched_ids touched_usernames)
  then show ?thesis
    using assms unfolding db_wf_alt by (simp only:) blast
qed


lemma db_wf_authenticate_user:
  assumes "db_wf db"
  shows "db_wf (snd (authenticate_user checkpw db now uname password ctry))"
  using assms db_wf_touch [OF assms]
  by (simp add: authenticate_user_find split: option.splits)

lemma db_wf_create_session:
  assumes "db_wf db"
  shows "db_wf (snd (create_session db now new_token uid ip ua))"
  using assms unfolding db_wf_alt by (simp add: create_session_def Let_def)

text \<open>A session expires 24 hours, in microseconds, after its creation.\<close>

lemma create_session_expiry:
  assumes "create_session db now new_token uid ip ua = (Inr t, db')"
  shows "t = new_token"
    and "sessions db' = sessions db @
           [\<lparr>token = new_token, user_id = uid, expires_at = now + 86400000000,
             ip_address = ip, user_agent = ua\<rparr>]"
  using assms
  by (auto simp add: create_session_def Let_def timedelta_hours_def JWT_EXPIRE_HOURS_def
        split: if_splits)

subsection \<open>Login, then identification\<close>

text \<open>
  C3. In a store that meets the constraints of the schema, for an active user, a
  password that \<open>checkpw\<close> accepts for the hash of the user and the country of the
  instance equal to the country of the user, with a token drawn that no session has yet: \<open>login\<close> succeeds and puts the token in the
  cookie, the store still meets the constraints, and \<open>verify_session\<close> of that token, at
  any time before the expiry 24 hours after the login, returns a user whose username and
  country are the ones given to \<open>login\<close>.
\<close>

theorem login_identify_round_trip:
  assumes wf: "db_wf db" and u: "u \<in> set (users db)" and act: "is_active u"
    and name: "username u = lg_username ld"
    and tenant: "country u = getenv env ''COUNTRY'' ''FRANCE''"
    and pw: "checkpw (lg_password ld) (password_hash u) = Some True"
    and fresh: "new_token \<notin> token ` set (sessions db)"
    and soon: "now' < now + timedelta_hours JWT_EXPIRE_HOURS"
  shows "\<exists>resp db'. login checkpw env db now new_token req ld = (Inr resp, db') \<and>
           ck_value (lr_set_cookie resp) = new_token \<and>
           pu_username (lr_user resp) = lg_username ld \<and>
           db_wf db' \<and>
           (\<exists>cur. verify_session db' now' new_token = Some cur \<and>
              cu_username cur = lg_username ld \<and>
              cu_country cur = getenv env ''COUNTRY'' ''FRANCE'' \<and>
              cu_id_user cur = id_user u)"
proof -
  define ctry where "ctry = getenv env ''COUNTRY'' ''FRANCE''"
  define touch where
    "touch = (\<lambda>v::user_row. if id_user v = id_user u then v\<lparr>last_login := Some now\<rparr> else v)"
  define db1 where "db1 = db\<lparr>users := map touch (users db)\<rparr>"
  define ua where "ua = (case req_headers req ''User-Agent'' of None \<Rightarrow> [] | Some v \<Rightarrow> v)"
  define s where
    "s = \<lparr>token = new_token, user_id = id_user u,
          expires_at = now + timedelta_hours JWT_EXPIRE_HOURS,
          ip_address = client_host req, user_agent = Some ua\<rparr>"
  define db2 where "db2 = db1\<lparr>sessions := sessions db1 @ [s]\<rparr>"
  from wf have dn: "distinct (map username (users db))" by (simp add: db_wf_def)
  have only: "\<forall>v \<in> set (users db).
       username v = lg_username ld \<and> country v = ctry \<and> is_active v \<longrightarrow> v = u"
    using distinct_key_unique [OF dn _ u] name by auto
  have found: "find (\<lambda>v. username v = lg_username ld \<and> country v = ctry \<and> is_active v) (users db)
                = Some u"
    using u _ only by (rule find_unique) (simp add: name tenant act ctry_def)
  have auth: "authenticate_user checkpw db now (lg_username ld) (lg_password ld) ctry
                = (Inr (Some (auth_row u)), db1)"
    by (simp add: authenticate_user_find found pw db1_def touch_def)
  have wf1: "db_wf db1"
    unfolding db1_def touch_def using wf by (rule db_wf_touch)
  have ids1: "map id_user (users db1) = map id_user (users db)"
    by (simp add: db1_def touch_def touched_ids)
  have sess1: "sessions db1 = sessions db" by (simp add: db1_def)
  have cs: "create_session db1 now new_token (id_user u) (client_host req) (Some ua)
              = (Inr new_token, db2)"
    using fresh u ids1 by (auto simp add: create_session_def Let_def sess1 db2_def s_def image_iff)
  have wf2: "db_wf db2"
    using db_wf_create_session [OF wf1, of now new_token "id_user u" "client_host req" "Some ua"]
    by (simp add: cs)
  have lg: "login checkpw env db now new_token req ld =
             (Inr \<lparr>lr_message = ''Login successful'',
                   lr_user = \<lparr>pu_username = username u, pu_country = country u,
                              pu_role = role u, pu_full_name = full_name u\<rparr>,
                   lr_set_cookie = \<lparr>ck_key = ''auth_token'', ck_value = new_token,
                                    ck_httponly = True, ck_secure = False,
                                    ck_samesite = ''lax'', ck_max_age = 24 * 60 * 60\<rparr>\<rparr>, db2)"
    using auth cs by (simp add: login_def Let_def ctry_def [symmetric] ua_def [symmetric] auth_row_def)
  have s_in: "s \<in> set (sessions db2)" by (simp add: db2_def)
  have u_in: "touch u \<in> set (users db2)" using u by (simp add: db2_def db1_def)
  have tu: "touch u = u\<lparr>last_login := Some now\<rparr>" by (simp add: touch_def)
  from wf2 have dt: "distinct (map token (sessions db2))"
    and di: "distinct (map id_user (users db2))" by (simp_all add: db_wf_def)
  have "verify_session db2 now' (token s) =
          (if now' < expires_at s \<and> is_active (touch u) then Some (joined_row (touch u) s)
           else None)"
    using dt di s_in u_in by (rule verify_session_known) (simp add: s_def tu)
  then have vs: "verify_session db2 now' new_token = Some (joined_row (touch u) s)"
    using soon act by (simp add: s_def tu)
  have row: "cu_username (joined_row (touch u) s) = lg_username ld"
    "cu_country (joined_row (touch u) s) = getenv env ''COUNTRY'' ''FRANCE''"
    "cu_id_user (joined_row (touch u) s) = id_user u"
    by (simp_all add: joined_row_def tu name tenant)
  from lg wf2 vs row name show ?thesis by simp
qed

theorem login_identify_round_trip_witness:
  "db_wf ex_db \<and> alice \<in> set (users ex_db) \<and> is_active alice \<and>
   ex_checkpw ''correct-pw'' (password_hash alice) = Some True \<and>
   ''tok-new'' \<notin> token ` set (sessions ex_db) \<and>
   (6 :: int) < 5 + timedelta_hours JWT_EXPIRE_HOURS \<and>
   (case login ex_checkpw (env_of ''FRANCE'') ex_db 5 ''tok-new'' (ex_request None None)
           \<lparr>lg_username = ''alice'', lg_password = ''correct-pw''\<rparr> of
      (Inl e, db') \<Rightarrow> False
    | (Inr resp, db') \<Rightarrow>
        ck_value (lr_set_cookie resp) = ''tok-new'' \<and>
        map_option cu_username (verify_session db' 6 ''tok-new'') = Some ''alice'' \<and>
        map_option cu_country (verify_session db' 6 ''tok-new'') = Some ''FRANCE'')"
proof -
  have m: "alice \<in> set (users ex_db)" by (simp add: ex_db_def)
  have a: "is_active alice" by (simp add: alice_def)
  have n: "username alice
             = lg_username \<lparr>lg_username = ''alice'', lg_password = ''correct-pw''\<rparr>"
    by (simp add: alice_def)
  have c: "country alice = getenv (env_of ''FRANCE'') ''COUNTRY'' ''FRANCE''"
    by (simp add: alice_def env_of_def getenv_def)
  have p: "ex_checkpw (lg_password \<lparr>lg_username = ''alice'', lg_password = ''correct-pw''\<rparr>)
             (password_hash alice) = Some True"
    by (simp add: ex_checkpw_def alice_def)
  have f: "''tok-new'' \<notin> token ` set (sessions ex_db)"
    by (simp add: ex_db_def ex_session_def)
  have t: "(6 :: int) < 5 + timedelta_hours JWT_EXPIRE_HOURS"
    by (simp add: timedelta_hours_def JWT_EXPIRE_HOURS_def)
  from login_identify_round_trip [where db = ex_db and u = alice and checkpw = ex_checkpw
      and ld = "\<lparr>lg_username = ''alice'', lg_password = ''correct-pw''\<rparr>"
      and env = "env_of ''FRANCE''" and new_token = "''tok-new''" and now = 5 and now' = 6
      and req = "ex_request None None", OF ex_db_wf m a n c p f t]
  obtain resp db' where
    r: "login ex_checkpw (env_of ''FRANCE'') ex_db 5 ''tok-new'' (ex_request None None)
           \<lparr>lg_username = ''alice'', lg_password = ''correct-pw''\<rparr> = (Inr resp, db')"
      "ck_value (lr_set_cookie resp) = ''tok-new''"
      "\<exists>cur. verify_session db' 6 ''tok-new'' = Some cur \<and>
              cu_username cur = ''alice'' \<and> cu_country cur = ''FRANCE''"
    using c by (auto simp: alice_def)
  from r have "case login ex_checkpw (env_of ''FRANCE'') ex_db 5 ''tok-new''
           (ex_request None None) \<lparr>lg_username = ''alice'', lg_password = ''correct-pw''\<rparr> of
      (Inl e, db') \<Rightarrow> False
    | (Inr resp, db') \<Rightarrow>
        ck_value (lr_set_cookie resp) = ''tok-new'' \<and>
        map_option cu_username (verify_session db' 6 ''tok-new'') = Some ''alice'' \<and>
        map_option cu_country (verify_session db' 6 ''tok-new'') = Some ''FRANCE''"
    by auto
  with ex_db_wf m a p f t show ?thesis by simp
qed

subsection \<open>The token of a request\<close>

lemma split_on_nonempty: "split_on sep s \<noteq> []"
  by (induction s) (simp_all split: list.splits)

lemma hd_split_on: "hd (split_on sep s) = takeWhile (\<lambda>c. c \<noteq> sep) s"
proof (induction s)
  case Nil
  then show ?case by simp
next
  case (Cons a s)
  obtain w ws where "split_on sep s = w # ws"
    using split_on_nonempty [of sep s] by (cases "split_on sep s") auto
  with Cons show ?case by simp
qed

lemma split_on_Bearer:
  assumes "startswith h ''Bearer ''"
  shows "split_on CHR '' '' h = ''Bearer'' # split_on CHR '' '' (drop 7 h)"
proof -
  have "length ''Bearer '' = 7" by simp
  with assms have "take 7 h = ''Bearer ''" unfolding startswith_def by (simp only:)
  then have "h = ''Bearer '' @ drop 7 h" by (metis append_take_drop_id)
  then obtain r where h: "h = ''Bearer '' @ r" and r: "r = drop 7 h" by blast
  obtain w ws where "split_on CHR '' '' r = w # ws"
    using split_on_nonempty [of "CHR '' ''" r] by (cases "split_on CHR '' '' r") auto
  then show ?thesis unfolding h r [symmetric] by simp
qed

lemma bearer_token:
  assumes "startswith h ''Bearer ''"
  shows "1 < length (split_on CHR '' '' h)"
    and "split_on CHR '' '' h ! 1 = takeWhile (\<lambda>c. c \<noteq> CHR '' '') (drop 7 h)"
proof -
  obtain w ws where s: "split_on CHR '' '' (drop 7 h) = w # ws"
    using split_on_nonempty [of "CHR '' ''" "drop 7 h"]
    by (cases "split_on CHR '' '' (drop 7 h)") auto
  show "1 < length (split_on CHR '' '' h)"
    by (simp add: split_on_Bearer [OF assms] s)
  have "split_on CHR '' '' h ! 1 = hd (split_on CHR '' '' (drop 7 h))"
    by (simp add: split_on_Bearer [OF assms] s)
  then show "split_on CHR '' '' h ! 1 = takeWhile (\<lambda>c. c \<noteq> CHR '' '') (drop 7 h)"
    by (simp only: hd_split_on)
qed

lemma truthy_simps:
  "truthy None = False" "truthy (Some s) = (s \<noteq> [])"
  by (simp_all add: truthy_def)

text \<open>
  C8, as the code has it. A cookie \<^verbatim>\<open>auth_token\<close> that is not empty decides alone:
  the user is the one \<open>verify_session\<close> finds for the cookie, whatever the header
  \<^verbatim>\<open>Authorization\<close> holds. The header is read when the cookie is absent or empty, and
  only a header that starts with \<^verbatim>\<open>Bearer \<close> gives a token: the text between that
  prefix and the next space, refused when empty.
\<close>

theorem cookie_precedence:
  "(\<forall>c. cookies req ''auth_token'' = Some c \<and> c \<noteq> [] \<longrightarrow>
        get_current_user db now req = verify_session db now c) \<and>
   (cookies req ''auth_token'' = None \<or> cookies req ''auth_token'' = Some [] \<longrightarrow>
      get_current_user db now req =
        (case req_headers req ''Authorization'' of
           None \<Rightarrow> None
         | Some h \<Rightarrow>
             if startswith h ''Bearer '' \<and> takeWhile (\<lambda>c. c \<noteq> CHR '' '') (drop 7 h) \<noteq> []
             then verify_session db now (takeWhile (\<lambda>c. c \<noteq> CHR '' '') (drop 7 h))
             else None))"
proof (intro conjI allI impI)
  fix c assume "cookies req ''auth_token'' = Some c \<and> c \<noteq> []"
  then show "get_current_user db now req = verify_session db now c"
    by (simp add: get_current_user_def truthy_def Let_def)
next
  assume a: "cookies req ''auth_token'' = None \<or> cookies req ''auth_token'' = Some []"
  then have nt: "\<not> truthy (cookies req ''auth_token'')" by (auto simp: truthy_def)
  show "get_current_user db now req =
        (case req_headers req ''Authorization'' of
           None \<Rightarrow> None
         | Some h \<Rightarrow>
             if startswith h ''Bearer '' \<and> takeWhile (\<lambda>c. c \<noteq> CHR '' '') (drop 7 h) \<noteq> []
             then verify_session db now (takeWhile (\<lambda>c. c \<noteq> CHR '' '') (drop 7 h))
             else None)"
  proof (cases "req_headers req ''Authorization''")
    case None
    with nt show ?thesis
      by (simp add: get_current_user_def Let_def truthy_simps)
  next
    case (Some h)
    show ?thesis
    proof (cases "startswith h ''Bearer ''")
      case True
      then have "h \<noteq> []" by (auto simp: startswith_def)
      have t: "split_on CHR '' '' h ! Suc 0 = takeWhile (\<lambda>c. c \<noteq> CHR '' '') (drop 7 h)"
        using bearer_token(2) [OF True] by simp
      from True Some nt \<open>h \<noteq> []\<close> show ?thesis
        by (simp add: get_current_user_def Let_def t truthy_simps)
    next
      case False
      with Some nt show ?thesis
        by (simp add: get_current_user_def Let_def truthy_simps)
    qed
  qed
qed

theorem cookie_precedence_witness:
  "get_current_user ex_db 5 (ex_request (Some ''tok-bob'') (Some ''Bearer tok-alice''))
     = verify_session ex_db 5 ''tok-bob'' \<and>
   get_current_user ex_db 5 (ex_request None (Some ''Bearer tok-alice''))
     = verify_session ex_db 5 ''tok-alice'' \<and>
   get_current_user ex_db 5 (ex_request None (Some ''bearer tok-alice'')) = None"
proof -
  have 1: "get_current_user ex_db 5 (ex_request (Some ''tok-bob'') (Some ''Bearer tok-alice''))
     = verify_session ex_db 5 ''tok-bob''"
    using cookie_precedence [of "ex_request (Some ''tok-bob'') (Some ''Bearer tok-alice'')" ex_db 5]
    by (simp add: ex_request_def)
  have 2: "get_current_user ex_db 5 (ex_request None (Some ''Bearer tok-alice''))
     = verify_session ex_db 5 ''tok-alice''"
    using cookie_precedence [of "ex_request None (Some ''Bearer tok-alice'')" ex_db 5]
    by (simp add: ex_request_def startswith_def)
  have 3: "get_current_user ex_db 5 (ex_request None (Some ''bearer tok-alice'')) = None"
    using cookie_precedence [of "ex_request None (Some ''bearer tok-alice'')" ex_db 5]
    by (simp add: ex_request_def startswith_def)
  from 1 2 3 show ?thesis by simp
qed

text \<open>
  The claim C8 as the spec states it fails for a cookie that is present and empty, which
  the dashboard sends when it holds no token: the token of the header identifies the
  user, and the cookie's own value identifies nobody.
\<close>

theorem empty_cookie_counterexample:
  "cookies (ex_request (Some []) (Some ''Bearer tok-alice'')) ''auth_token'' = Some [] \<and>
   req_headers (ex_request (Some []) (Some ''Bearer tok-alice'')) ''Authorization''
     = Some ''Bearer tok-alice'' \<and>
   get_current_user ex_db 5 (ex_request (Some []) (Some ''Bearer tok-alice''))
     = Some (joined_row alice (ex_session ''tok-alice'' 1)) \<and>
   verify_session ex_db 5 [] = None \<and>
   get_current_user ex_db 5 (ex_request (Some []) (Some ''Bearer tok-alice''))
     \<noteq> verify_session ex_db 5 []"
proof -
  have v: "verify_session ex_db 5 ''tok-alice'' = Some (joined_row alice (ex_session ''tok-alice'' 1))"
    by (simp add: verify_session_def ex_db_def alice_def bob_def carol_def ex_session_def
          fetchone_def joined_row_def)
  have e: "verify_session ex_db 5 [] = None"
    by (simp add: verify_session_def ex_db_def alice_def bob_def carol_def ex_session_def
          fetchone_def joined_row_def)
  have g: "get_current_user ex_db 5 (ex_request (Some []) (Some ''Bearer tok-alice''))
             = verify_session ex_db 5 ''tok-alice''"
    by (simp add: get_current_user_def ex_request_def truthy_def startswith_def Let_def)
  from v e g show ?thesis by (simp add: ex_request_def)
qed

subsection \<open>Logout\<close>

lemma logout_succeeds:
  "fst (logout db req) = \<lparr>lo_message = ''Logout successful'', lo_delete_cookie = ''auth_token''\<rparr>"
  by (simp add: logout_def Let_def)

lemma logout_idempotent:
  "logout (snd (logout db req)) req = logout db req"
  by (simp add: logout_def Let_def delete_session_def)

lemma logout_deletes_cookie_session:
  assumes "cookies req ''auth_token'' = Some c" and "c \<noteq> []"
  shows "sessions (snd (logout db req)) = filter (\<lambda>s. token s \<noteq> c) (sessions db)"
    and "verify_session (snd (logout db req)) now c = None"
proof -
  show 1: "sessions (snd (logout db req)) = filter (\<lambda>s. token s \<noteq> c) (sessions db)"
    using assms by (simp add: logout_def Let_def delete_session_def truthy_simps)
  have "c \<notin> token ` set (sessions (snd (logout db req)))"
    unfolding 1 by auto
  then show "verify_session (snd (logout db req)) now c = None"
    by (rule verify_session_unknown)
qed

lemma logout_without_cookie:
  assumes "cookies req ''auth_token'' = None \<or> cookies req ''auth_token'' = Some []"
  shows "snd (logout db req) = db"
  using assms by (auto simp add: logout_def Let_def truthy_simps)

text \<open>
  C9. \<open>logout\<close> always answers \<^verbatim>\<open>Logout successful\<close>, deletes the session of a cookie
  that is not empty and is idempotent (the lemmas above). It reads the cookie only. A
  client that presents its token in the header \<^verbatim>\<open>Authorization\<close>, as
  \<open>get_current_user\<close> accepts, is told that the logout succeeded while the store is
  unchanged, and the token identifies the user as before; the same token sent as a
  cookie is deleted.
\<close>

theorem logout_ignores_bearer_header:
  "get_current_user ex_db 5 (ex_request None (Some ''Bearer tok-alice''))
     = Some (joined_row alice (ex_session ''tok-alice'' 1)) \<and>
   logout ex_db (ex_request None (Some ''Bearer tok-alice''))
     = (\<lparr>lo_message = ''Logout successful'', lo_delete_cookie = ''auth_token''\<rparr>, ex_db) \<and>
   get_current_user (snd (logout ex_db (ex_request None (Some ''Bearer tok-alice'')))) 5
       (ex_request None (Some ''Bearer tok-alice''))
     = Some (joined_row alice (ex_session ''tok-alice'' 1)) \<and>
   verify_session (snd (logout ex_db (ex_request (Some ''tok-alice'') None))) 5 ''tok-alice''
     = None"
proof -
  have v: "verify_session ex_db 5 ''tok-alice'' = Some (joined_row alice (ex_session ''tok-alice'' 1))"
    by (simp add: verify_session_def ex_db_def alice_def bob_def carol_def ex_session_def
          fetchone_def joined_row_def)
  have g: "get_current_user ex_db 5 (ex_request None (Some ''Bearer tok-alice''))
             = verify_session ex_db 5 ''tok-alice''"
    by (simp add: get_current_user_def ex_request_def truthy_def startswith_def Let_def)
  have l: "logout ex_db (ex_request None (Some ''Bearer tok-alice''))
     = (\<lparr>lo_message = ''Logout successful'', lo_delete_cookie = ''auth_token''\<rparr>, ex_db)"
    by (simp add: logout_def ex_request_def truthy_def Let_def)
  have c: "verify_session (snd (logout ex_db (ex_request (Some ''tok-alice'') None))) 5 ''tok-alice''
     = None"
    by (simp add: logout_def ex_request_def truthy_def Let_def delete_session_def
          verify_session_def ex_db_def alice_def bob_def carol_def ex_session_def fetchone_def)
  from v g l c show ?thesis by simp
qed

subsection \<open>Roles at creation\<close>

lemma create_user_cases:
  "create_user hashpw salt db now uname password ctry rl mail fname =
     (if \<exists>u \<in> set (users db). username u = uname
      then (Inl (HTTPException 400 ''Username already exists'' []), db)
      else (Inr \<lparr>nu_id_user = users_id_seq db, nu_username = uname, nu_country = ctry,
                 nu_role = rl, nu_email = mail, nu_full_name = fname, nu_created_at = now\<rparr>,
            db\<lparr>users := users db @
                  [\<lparr>id_user = users_id_seq db, username = uname,
                    password_hash = hash_password hashpw salt password,
                    country = ctry, role = rl, email = mail, full_name = fname,
                    is_active = True, created_at = now, last_login = None\<rparr>],
               users_id_seq := users_id_seq db + 1\<rparr>))"
proof -
  have "fetchone (concat (map (\<lambda>u. if username u = uname then [id_user u] else []) (users db)))
          \<noteq> None
        \<longleftrightarrow> (\<exists>u \<in> set (users db). username u = uname)"
    by (auto simp add: fetchone_comprehension find_None_iff)
  then show ?thesis
    by (simp add: create_user_def Let_def)
qed

lemma ex_lower: "lower ''FRANCE'' = ''france''"
  by code_simp

lemma ex_repr_list:
  "repr_list [''chercheur_france'', ''admin_france'']
     = ''['' @ [CHR 0x27] @ ''chercheur_france'' @ [CHR 0x27] @ '', ''
       @ [CHR 0x27] @ ''admin_france'' @ [CHR 0x27] @ '']''"
  by code_simp

lemma ex_carol_auth:
  "require_auth ex_db 5 (ex_request (Some ''tok-carol'') None)
     = Inr (joined_row carol (ex_session ''tok-carol'' 3))"
  by (simp add: require_auth_def get_current_user_def ex_request_def truthy_def Let_def
        verify_session_def ex_db_def alice_def bob_def carol_def ex_session_def
        fetchone_def joined_row_def)

text \<open>
  C5, as the code has it. For a caller who is authenticated, of the country of the
  instance and an administrator, \<^verbatim>\<open>POST /auth/users\<close> raises status 400 with the
  detail \<^verbatim>\<open>Invalid role\<close> if and only if the requested role is neither
  \<^verbatim>\<open>chercheur_\<close> nor \<^verbatim>\<open>admin_\<close> followed by the caller's country in lower case, and
  writes nothing then. A user that it creates has the caller's country and one of these
  two roles, so the suffix of the role is the country of the user in lower case.
\<close>

theorem create_new_user_role_validation:
  assumes "require_auth db now req = Inr cur"
    and "cu_country cur = getenv env ''COUNTRY'' ''FRANCE''"
    and "startswith (cu_role cur) ''admin_''"
  shows "(fst (create_new_user hashpw salt env db now req ud)
            = Inl (HTTPException 400
                     (''Invalid role. Valid roles for '' @ cu_country cur @ '': ''
                      @ repr_list [''chercheur_'' @ lower (cu_country cur),
                                   ''admin_'' @ lower (cu_country cur)]) [])
          \<longleftrightarrow> cr_role ud \<notin> {''chercheur_'' @ lower (cu_country cur),
                              ''admin_'' @ lower (cu_country cur)}) \<and>
         (cr_role ud \<notin> {''chercheur_'' @ lower (cu_country cur),
                          ''admin_'' @ lower (cu_country cur)}
          \<longrightarrow> snd (create_new_user hashpw salt env db now req ud) = db) \<and>
         (\<forall>r db'. create_new_user hashpw salt env db now req ud = (Inr r, db') \<longrightarrow>
            nu_country (cur_user r) = cu_country cur \<and>
            nu_role (cur_user r) = cr_role ud \<and>
            nu_role (cur_user r) \<in> {''chercheur_'' @ lower (nu_country (cur_user r)),
                                     ''admin_'' @ lower (nu_country (cur_user r))} \<and>
            (\<exists>u \<in> set (users db'). username u = cr_username ud \<and>
               country u = cu_country cur \<and> role u = cr_role ud))"
proof -
  have rc: "require_country env req cur = Inr cur"
    using assms(2) by (simp add: require_country_def Let_def)
  show ?thesis
  proof (cases "cr_role ud \<in> set (valid_roles (cu_country cur))")
    case False
    then have "create_new_user hashpw salt env db now req ud =
        (Inl (HTTPException 400
                (''Invalid role. Valid roles for '' @ cu_country cur @ '': ''
                 @ repr_list (valid_roles (cu_country cur))) []), db)"
      using assms(1,3) rc by (simp add: create_new_user_def Let_def)
    with False show ?thesis by (simp add: valid_roles_def)
  next
    case True
    have c: "create_new_user hashpw salt env db now req ud =
        (case create_user hashpw salt db now (cr_username ud) (cr_password ud) (cu_country cur)
                (cr_role ud) (cr_email ud) (cr_full_name ud) of
           (Inl e, db1) \<Rightarrow> (Inl e, db1)
         | (Inr new_user, db1) \<Rightarrow>
             (Inr \<lparr>cur_message = ''User created successfully'', cur_user = new_user\<rparr>, db1))"
      using assms(1,3) rc True by (simp add: create_new_user_def Let_def)
    from True have m: "cr_role ud \<in> {''chercheur_'' @ lower (cu_country cur),
                              ''admin_'' @ lower (cu_country cur)}"
      by (simp add: valid_roles_def)
    show ?thesis
    proof (cases "\<exists>u \<in> set (users db). username u = cr_username ud")
      case True
      then have "create_new_user hashpw salt env db now req ud =
                   (Inl (HTTPException 400 ''Username already exists'' []), db)"
        by (simp add: c create_user_cases)
      with m show ?thesis by simp
    next
      case False
      then have "create_new_user hashpw salt env db now req ud =
         (Inr \<lparr>cur_message = ''User created successfully'',
               cur_user = \<lparr>nu_id_user = users_id_seq db, nu_username = cr_username ud,
                  nu_country = cu_country cur, nu_role = cr_role ud, nu_email = cr_email ud,
                  nu_full_name = cr_full_name ud, nu_created_at = now\<rparr>\<rparr>,
          db\<lparr>users := users db @
                  [\<lparr>id_user = users_id_seq db, username = cr_username ud,
                    password_hash = hash_password hashpw salt (cr_password ud),
                    country = cu_country cur, role = cr_role ud, email = cr_email ud,
                    full_name = cr_full_name ud,
                    is_active = True, created_at = now, last_login = None\<rparr>],
               users_id_seq := users_id_seq db + 1\<rparr>)"
        by (simp add: c create_user_cases)
      with m show ?thesis by auto
    qed
  qed
qed

theorem create_new_user_role_validation_witness:
  "require_auth ex_db 5 (ex_request (Some ''tok-carol'') None)
     = Inr (joined_row carol (ex_session ''tok-carol'' 3)) \<and>
   cu_country (joined_row carol (ex_session ''tok-carol'' 3))
     = getenv (env_of ''FRANCE'') ''COUNTRY'' ''FRANCE'' \<and>
   startswith (cu_role (joined_row carol (ex_session ''tok-carol'' 3))) ''admin_'' \<and>
   fst (create_new_user ex_hashpw ''s'' (env_of ''FRANCE'') ex_db 5
          (ex_request (Some ''tok-carol'') None)
          \<lparr>cr_username = ''dave'', cr_password = ''pw'', cr_role = ''admin_switzerland'',
            cr_email = None, cr_full_name = None\<rparr>)
     = Inl (HTTPException 400
              (''Invalid role. Valid roles for FRANCE: ''
               @ repr_list [''chercheur_france'', ''admin_france'']) []) \<and>
   fst (create_new_user ex_hashpw ''s'' (env_of ''FRANCE'') ex_db 5
          (ex_request (Some ''tok-carol'') None)
          \<lparr>cr_username = ''dave'', cr_password = ''pw'', cr_role = ''admin_france'',
            cr_email = None, cr_full_name = None\<rparr>)
     \<noteq> Inl (HTTPException 400
              (''Invalid role. Valid roles for FRANCE: ''
               @ repr_list [''chercheur_france'', ''admin_france'']) [])"
proof -
  have c: "cu_country (joined_row carol (ex_session ''tok-carol'' 3))
             = getenv (env_of ''FRANCE'') ''COUNTRY'' ''FRANCE''"
    by (simp add: joined_row_def carol_def env_of_def getenv_def)
  have c': "cu_country (joined_row carol (ex_session ''tok-carol'' 3)) = ''FRANCE''"
    by (simp add: joined_row_def carol_def)
  have a: "startswith (cu_role (joined_row carol (ex_session ''tok-carol'' 3))) ''admin_''"
    by (simp add: joined_row_def carol_def startswith_def)
  have 1: "fst (create_new_user ex_hashpw ''s'' (env_of ''FRANCE'') ex_db 5
          (ex_request (Some ''tok-carol'') None)
          \<lparr>cr_username = ''dave'', cr_password = ''pw'', cr_role = ''admin_switzerland'',
            cr_email = None, cr_full_name = None\<rparr>)
     = Inl (HTTPException 400
              (''Invalid role. Valid roles for FRANCE: ''
               @ repr_list [''chercheur_france'', ''admin_france'']) [])"
    using create_new_user_role_validation [where hashpw = ex_hashpw and salt = "''s''"
        and ud = "\<lparr>cr_username = ''dave'', cr_password = ''pw'',
                cr_role = ''admin_switzerland'', cr_email = None, cr_full_name = None\<rparr>",
        OF ex_carol_auth c a, THEN conjunct1]
    by (simp add: c' ex_lower)
  have 2: "fst (create_new_user ex_hashpw ''s'' (env_of ''FRANCE'') ex_db 5
          (ex_request (Some ''tok-carol'') None)
          \<lparr>cr_username = ''dave'', cr_password = ''pw'', cr_role = ''admin_france'',
            cr_email = None, cr_full_name = None\<rparr>)
     \<noteq> Inl (HTTPException 400
              (''Invalid role. Valid roles for FRANCE: ''
               @ repr_list [''chercheur_france'', ''admin_france'']) [])"
    using create_new_user_role_validation [where hashpw = ex_hashpw and salt = "''s''"
        and ud = "\<lparr>cr_username = ''dave'', cr_password = ''pw'',
                cr_role = ''admin_france'', cr_email = None, cr_full_name = None\<rparr>",
        OF ex_carol_auth c a, THEN conjunct1]
    by (simp add: c' ex_lower)
  from ex_carol_auth c a 1 2 show ?thesis by simp
qed

text \<open>
  The claim C5 as the spec states it, with the role \<^verbatim>\<open>researcher_\<close>, fails: an
  administrator of FRANCE is refused the role \<^verbatim>\<open>researcher_france\<close> and is granted the
  role \<^verbatim>\<open>chercheur_france\<close>.
\<close>

theorem researcher_role_counterexample:
  "fst (create_new_user ex_hashpw ''s'' (env_of ''FRANCE'') ex_db 5
          (ex_request (Some ''tok-carol'') None)
          \<lparr>cr_username = ''dave'', cr_password = ''pw'', cr_role = ''researcher_france'',
            cr_email = None, cr_full_name = None\<rparr>)
     = Inl (HTTPException 400
              (''Invalid role. Valid roles for FRANCE: ['' @ [CHR 0x27] @ ''chercheur_france''
               @ [CHR 0x27] @ '', '' @ [CHR 0x27] @ ''admin_france'' @ [CHR 0x27] @ '']'') []) \<and>
   fst (create_new_user ex_hashpw ''s'' (env_of ''FRANCE'') ex_db 5
          (ex_request (Some ''tok-carol'') None)
          \<lparr>cr_username = ''dave'', cr_password = ''pw'', cr_role = ''chercheur_france'',
            cr_email = None, cr_full_name = None\<rparr>)
     = Inr \<lparr>cur_message = ''User created successfully'',
            cur_user = \<lparr>nu_id_user = 4, nu_username = ''dave'', nu_country = ''FRANCE'',
                         nu_role = ''chercheur_france'', nu_email = None,
                         nu_full_name = None, nu_created_at = 5\<rparr>\<rparr> \<and>
   ''chercheur_france'' \<notin> {''researcher_france'', ''admin_france''}"
proof -
  have rc: "require_country (env_of ''FRANCE'') (ex_request (Some ''tok-carol'') None)
              (joined_row carol (ex_session ''tok-carol'' 3))
            = Inr (joined_row carol (ex_session ''tok-carol'' 3))"
    by (simp add: require_country_def env_of_def getenv_def joined_row_def carol_def)
  have f: "cu_role (joined_row carol (ex_session ''tok-carol'' 3)) = ''admin_france''"
    "cu_country (joined_row carol (ex_session ''tok-carol'' 3)) = ''FRANCE''"
    by (simp_all add: joined_row_def carol_def)
  have vr: "valid_roles ''FRANCE'' = [''chercheur_france'', ''admin_france'']"
    by (simp add: valid_roles_def ex_lower)
  have u: "users ex_db = [alice, bob, carol]" "users_id_seq ex_db = 4" by (simp_all add: ex_db_def)
  have n: "username alice = ''alice''" "username bob = ''bob''" "username carol = ''carol''"
    by (simp_all add: alice_def bob_def carol_def)
  have 1: "fst (create_new_user ex_hashpw ''s'' (env_of ''FRANCE'') ex_db 5
          (ex_request (Some ''tok-carol'') None)
          \<lparr>cr_username = ''dave'', cr_password = ''pw'', cr_role = ''researcher_france'',
            cr_email = None, cr_full_name = None\<rparr>)
     = Inl (HTTPException 400
              (''Invalid role. Valid roles for FRANCE: ''
               @ repr_list [''chercheur_france'', ''admin_france'']) [])"
    by (simp add: create_new_user_def ex_carol_auth rc f vr startswith_def Let_def)
  have 2: "fst (create_new_user ex_hashpw ''s'' (env_of ''FRANCE'') ex_db 5
          (ex_request (Some ''tok-carol'') None)
          \<lparr>cr_username = ''dave'', cr_password = ''pw'', cr_role = ''chercheur_france'',
            cr_email = None, cr_full_name = None\<rparr>)
     = Inr \<lparr>cur_message = ''User created successfully'',
            cur_user = \<lparr>nu_id_user = 4, nu_username = ''dave'', nu_country = ''FRANCE'',
                         nu_role = ''chercheur_france'', nu_email = None,
                         nu_full_name = None, nu_created_at = 5\<rparr>\<rparr>"
    by (simp add: create_new_user_def ex_carol_auth rc f vr startswith_def Let_def
          create_user_cases u n)
  from 1 2 show ?thesis by (simp add: ex_repr_list)
qed

end
